theory Spec2Isabelle
  imports
    Main
    "HOL-Library.Char_ord"
    "HOL-Library.List_Lexorder"
    "HOL-Library.Multiset"
begin

section \<open>JavaScript values shared by the handlers\<close>

text \<open>
  Values that the code throws, rejects a promise with, or puts in the left of an
  \<open>Either\<close>: an \<open>Error\<close> object with its message, a DocumentDB \<open>QueryError\<close>
  object (\<open>code\<close>, \<open>body\<close>), or a bare string.
\<close>

datatype js_thrown =
    Error string
  | QueryError nat string
  | ThrownString string

text \<open>
  \<open>toError\<close> of fp-ts: an \<open>Error\<close> is kept, anything else becomes
  \<open>new Error(String(e))\<close>. \<open>String\<close> of a plain object is \<open>[object Object]\<close>.
  The result is the message of the resulting \<open>Error\<close>.
\<close>

fun toError :: "js_thrown \<Rightarrow> string" where
  "toError (Error m) = m"
| "toError (QueryError c b) = ''[object Object]''"
| "toError (ThrownString s) = s"

text \<open>A promise that has settled: resolved with a value or rejected with a reason.\<close>

datatype 'a promise = Resolved 'a | Rejected js_thrown

text \<open>What an async handler does for its caller: it returns a value or it throws.\<close>

datatype 'a js_outcome = Returned 'a | Threw js_thrown

section \<open>Domain data\<close>

text \<open>
  \<open>Date\<close> values by their UTC calendar fields, which is all the code reads of them
  (through \<open>toISOString\<close>). The dates of the decoded objects are valid dates; the
  invalid \<open>Date\<close>, on which \<open>toISOString\<close> throws, is not one of them.
\<close>

record js_date =
  utcFullYear :: int
  utcMonth :: nat
  utcDate :: nat
  utcHours :: nat
  utcMinutes :: nat
  utcSeconds :: nat
  utcMilliseconds :: nat

record FamilyMember =
  fiscalCode :: string
  name :: string
  surname :: string

datatype BonusActivationStatusEnum = ACTIVE | FAILED

record Dsu =
  familyMembers :: "FamilyMember list"
  maxAmount :: int
  maxTaxBenefit :: int
  requestId :: string
  iseeType :: string
  dsuProtocolId :: string
  dsuCreatedAt :: js_date
  hasDiscrepancies :: bool

text \<open>
  \<open>BonusActivationWithFamilyUID\<close>. The fields \<open>id\<close> and \<open>status\<close> of the source are
  \<open>ba_id\<close> and \<open>ba_status\<close> here.
\<close>

record BonusActivationWithFamilyUID =
  ba_id :: string
  applicantFiscalCode :: string
  ba_status :: BonusActivationStatusEnum
  createdAt :: js_date
  dsuRequest :: Dsu
  familyUID :: string

text \<open>
  \<open>NewBonusActivation\<close> and \<open>RetrievedBonusActivation\<close> are the activation with the
  \<open>kind\<close> tag of the document model; a retrieved document also has \<open>_self\<close> and \<open>_ts\<close>.
\<close>

datatype NewBonusActivation = INewBonusActivation BonusActivationWithFamilyUID

datatype RetrievedBonusActivation =
  IRetrievedBonusActivation BonusActivationWithFamilyUID string nat

fun retrievedBonus :: "RetrievedBonusActivation \<Rightarrow> BonusActivationWithFamilyUID" where
  "retrievedBonus (IRetrievedBonusActivation b self ts) = b"

section \<open>models/eligibility\_check: deleteOneById\<close>

text \<open>
  \<open>dbClient.deleteDocument(uri, {partitionKey}, callback)\<close> is the DocumentDB client: it
  is taken as a parameter that, on a store state, calls back with an error or with none.
  \<open>deleteOneById\<close> resolves \<open>left(err)\<close> when the client reports an error and
  \<open>right(documentId)\<close> otherwise; it looks at nothing else of the error.
\<close>

definition EligibilityCheckModel_deleteOneById ::
  "(string \<Rightarrow> 's \<Rightarrow> js_thrown option \<times> 's) \<Rightarrow> string \<Rightarrow> 's
    \<Rightarrow> (js_thrown + string) promise \<times> 's" where
  "EligibilityCheckModel_deleteOneById deleteDocument documentId s =
     (case deleteDocument documentId s of
        (err, s') \<Rightarrow>
          (Resolved (case err of Some e \<Rightarrow> Inl e | None \<Rightarrow> Inr documentId), s'))"

section \<open>FailedBonusActivationActivity/handler\<close>

datatype FailedBonusActivationResult =
    SUCCESS
  | INVALID_INPUT
  | UNHANDLED_FAILURE string
  | TRANSIENT

text \<open>
  \<open>fromQueryEither\<close>: a rejection and a resolved left are both turned into a left
  \<open>Error\<close> by \<open>toError\<close>; a resolved right is the result.
\<close>

fun fromQueryEither :: "(js_thrown + 'r) promise \<Rightarrow> string + 'r" where
  "fromQueryEither (Rejected x) = Inl (toError x)"
| "fromQueryEither (Resolved (Inl e)) = Inl (toError e)"
| "fromQueryEither (Resolved (Inr r)) = Inr r"

text \<open>
  The three document models are the handler's collaborators. Each method takes the state
  of the document store and returns the settled promise with the new state.
\<close>

type_synonym 's deleteOneById = "string \<Rightarrow> 's \<Rightarrow> (js_thrown + string) promise \<times> 's"

type_synonym 's createOrUpdate =
  "NewBonusActivation \<Rightarrow> string \<Rightarrow> 's \<Rightarrow> (js_thrown + RetrievedBonusActivation) promise \<times> 's"

definition relaseLockForUserFamily ::
  "'s deleteOneById \<Rightarrow> string \<Rightarrow> 's \<Rightarrow> (FailedBonusActivationResult + string) \<times> 's" where
  "relaseLockForUserFamily bonusLeaseModel fuid s =
     (case bonusLeaseModel fuid s of
        (p, s') \<Rightarrow>
          (case fromQueryEither p of
             Inl message \<Rightarrow> (Inl (UNHANDLED_FAILURE (''Error releasing lock: '' @ message)), s')
           | Inr _ \<Rightarrow> (Inr fuid, s')))"

definition updateBonusAsFailed ::
  "'s createOrUpdate \<Rightarrow> BonusActivationWithFamilyUID \<Rightarrow> 's
    \<Rightarrow> (FailedBonusActivationResult + RetrievedBonusActivation) \<times> 's" where
  "updateBonusAsFailed bonusActivationModel bonusActivation s =
     (let bonusToUpdate = INewBonusActivation (bonusActivation\<lparr>ba_status := FAILED\<rparr>)
      in case bonusActivationModel bonusToUpdate (ba_id bonusActivation) s of
        (p, s') \<Rightarrow>
          (case fromQueryEither p of
             Inl message \<Rightarrow> (Inl (UNHANDLED_FAILURE message), s')
           | Inr r \<Rightarrow> (Inr r, s')))"

definition deleteEligibilityCheck ::
  "'s deleteOneById \<Rightarrow> BonusActivationWithFamilyUID \<Rightarrow> 's
    \<Rightarrow> (FailedBonusActivationResult + BonusActivationWithFamilyUID) \<times> 's" where
  "deleteEligibilityCheck eligibilityCheckModel bonusActivation s =
     (case eligibilityCheckModel (ba_id bonusActivation) s of
        (p, s') \<Rightarrow>
          (case fromQueryEither p of
             Inl _ \<Rightarrow> (Inl TRANSIENT, s')
           | Inr _ \<Rightarrow> (Inr bonusActivation, s')))"

text \<open>
  The handler. \<open>FailedBonusActivationInput.decode\<close> is a generated codec, taken as the
  parameter \<open>decode\<close> on the unknown input. The chain stops at the first left; the fold
  makes a result of either side; the last \<open>map\<close> throws on a \<open>TRANSIENT\<close> result.
\<close>

definition throwOnTransient ::
  "FailedBonusActivationResult \<Rightarrow> FailedBonusActivationResult js_outcome" where
  "throwOnTransient result =
     (if result = TRANSIENT then Threw (Error ''transient failure'') else Returned result)"

definition FailedBonusActivationHandler ::
  "('u \<Rightarrow> BonusActivationWithFamilyUID option) \<Rightarrow> 's createOrUpdate \<Rightarrow> 's deleteOneById
    \<Rightarrow> 's deleteOneById \<Rightarrow> 'u \<Rightarrow> 's \<Rightarrow> FailedBonusActivationResult js_outcome \<times> 's" where
  "FailedBonusActivationHandler decode bonusActivationModel bonusLeaseModel
       eligibilityCheckModel input s =
     (case decode input of
        None \<Rightarrow> (throwOnTransient INVALID_INPUT, s)
      | Some bonusActivation \<Rightarrow>
          (case deleteEligibilityCheck eligibilityCheckModel bonusActivation s of
             (Inl l, s1) \<Rightarrow> (throwOnTransient l, s1)
           | (Inr bonusActivation1, s1) \<Rightarrow>
               (case updateBonusAsFailed bonusActivationModel bonusActivation1 s1 of
                  (Inl l, s2) \<Rightarrow> (throwOnTransient l, s2)
                | (Inr bonusActivation2, s2) \<Rightarrow>
                    (case relaseLockForUserFamily bonusLeaseModel
                            (familyUID (retrievedBonus bonusActivation2)) s2 of
                       (Inl l, s3) \<Rightarrow> (throwOnTransient l, s3)
                     | (Inr _, s3) \<Rightarrow> (throwOnTransient SUCCESS, s3)))))"

subsection \<open>A store that records the calls it receives\<close>

text \<open>
  To observe which operations the handler issues and in which order, the document models
  are instantiated with a store whose state is the list of calls received so far; what
  each call answers is given by a function of its arguments.
\<close>

datatype db_call =
    EligibilityCheck_deleteOneById string
  | BonusActivation_createOrUpdate NewBonusActivation string
  | BonusLease_deleteOneById string

definition rec_eligibilityCheckModel ::
  "(string \<Rightarrow> (js_thrown + string) promise) \<Rightarrow> (db_call list) deleteOneById" where
  "rec_eligibilityCheckModel answer k calls =
     (answer k, calls @ [EligibilityCheck_deleteOneById k])"

definition rec_bonusActivationModel ::
  "(NewBonusActivation \<Rightarrow> string \<Rightarrow> (js_thrown + RetrievedBonusActivation) promise)
    \<Rightarrow> (db_call list) createOrUpdate" where
  "rec_bonusActivationModel answer d k calls =
     (answer d k, calls @ [BonusActivation_createOrUpdate d k])"

definition rec_bonusLeaseModel ::
  "(string \<Rightarrow> (js_thrown + string) promise) \<Rightarrow> (db_call list) deleteOneById" where
  "rec_bonusLeaseModel answer k calls =
     (answer k, calls @ [BonusLease_deleteOneById k])"

text \<open>The handler on the recording store, started with no call, on a decoded input.\<close>

definition recHandler ::
  "(string \<Rightarrow> (js_thrown + string) promise)
    \<Rightarrow> (NewBonusActivation \<Rightarrow> string \<Rightarrow> (js_thrown + RetrievedBonusActivation) promise)
    \<Rightarrow> (string \<Rightarrow> (js_thrown + string) promise)
    \<Rightarrow> BonusActivationWithFamilyUID option
    \<Rightarrow> FailedBonusActivationResult js_outcome \<times> db_call list" where
  "recHandler ec ba bl input =
     FailedBonusActivationHandler (\<lambda>x. x) (rec_bonusActivationModel ba)
       (rec_bonusLeaseModel bl) (rec_eligibilityCheckModel ec) input []"

text \<open>The values of \<open>__mocks__/mocks.ts\<close>.\<close>

definition aDate :: js_date where
  "aDate = \<lparr>utcFullYear = 2020, utcMonth = 6, utcDate = 15, utcHours = 10,
            utcMinutes = 30, utcSeconds = 0, utcMilliseconds = 0\<rparr>"

definition aFiscalCode :: string where
  "aFiscalCode = ''AAABBB80A01C123D''"

definition aFamilyUID :: string where
  "aFamilyUID = ''aFamilyUid''"

definition aBonusActivationWithFamilyUID :: BonusActivationWithFamilyUID where
  "aBonusActivationWithFamilyUID =
     \<lparr>ba_id = ''AAAAAAAAAAAA'', applicantFiscalCode = aFiscalCode, ba_status = ACTIVE,
      createdAt = aDate,
      dsuRequest = \<lparr>familyMembers =
                      [\<lparr>fiscalCode = aFiscalCode, name = ''MARIO'', surname = ''ROSSI''\<rparr>],
                    maxAmount = 200, maxTaxBenefit = 100, requestId = ''aRequestId'',
                    iseeType = ''aISEEtype'', dsuProtocolId = ''aProtocolId'',
                    dsuCreatedAt = aDate, hasDiscrepancies = False\<rparr>,
      familyUID = aFamilyUID\<rparr>"

text \<open>A document store that answers every call with success.\<close>

definition okDelete :: "string \<Rightarrow> (js_thrown + string) promise" where
  "okDelete k = Resolved (Inr k)"

definition okUpsert ::
  "NewBonusActivation \<Rightarrow> string \<Rightarrow> (js_thrown + RetrievedBonusActivation) promise" where
  "okUpsert d k = (case d of INewBonusActivation b \<Rightarrow>
     Resolved (Inr (IRetrievedBonusActivation b ''xyz'' 123)))"

text \<open>A document store that answers a delete with the error 404 of a missing document.\<close>

definition notFoundDelete :: "string \<Rightarrow> (js_thrown + string) promise" where
  "notFoundDelete k = Resolved (Inl (QueryError 404 ''NotFound''))"

subsection \<open>A document store in memory\<close>

text \<open>
  To run the handler on a store with contents: the eligibility checks and the leases by
  their ids, the activations by id with their document. What the client reports when
  the document to delete does not exist is the parameter \<open>onMissing\<close>: an error (the
  DocumentDB service answers 404), or nothing. The lease model, which is not among the
  sources, deletes as the eligibility model does.
\<close>

record document_store =
  eligibilityChecks :: "string list"
  bonusActivations :: "(string \<times> NewBonusActivation) list"
  bonusLeases :: "string list"

definition mem_deleteDocument ::
  "js_thrown option \<Rightarrow> string \<Rightarrow> string list \<Rightarrow> js_thrown option \<times> string list" where
  "mem_deleteDocument onMissing k ids =
     (if k \<in> set ids then (None, removeAll k ids) else (onMissing, ids))"

definition mem_eligibilityCheckModel :: "js_thrown option \<Rightarrow> document_store deleteOneById" where
  "mem_eligibilityCheckModel onMissing =
     EligibilityCheckModel_deleteOneById
       (\<lambda>k st. case mem_deleteDocument onMissing k (eligibilityChecks st) of
                  (err, ids) \<Rightarrow> (err, st\<lparr>eligibilityChecks := ids\<rparr>))"

definition mem_bonusLeaseModel :: "js_thrown option \<Rightarrow> document_store deleteOneById" where
  "mem_bonusLeaseModel onMissing =
     EligibilityCheckModel_deleteOneById
       (\<lambda>k st. case mem_deleteDocument onMissing k (bonusLeases st) of
                  (err, ids) \<Rightarrow> (err, st\<lparr>bonusLeases := ids\<rparr>))"

definition mem_bonusActivationModel :: "document_store createOrUpdate" where
  "mem_bonusActivationModel d k st =
     (case d of INewBonusActivation b \<Rightarrow>
        (Resolved (Inr (IRetrievedBonusActivation b ''xyz'' 123)),
         st\<lparr>bonusActivations := (k, d) # filter (\<lambda>p. fst p \<noteq> k) (bonusActivations st)\<rparr>))"

definition memHandler ::
  "js_thrown option \<Rightarrow> BonusActivationWithFamilyUID option \<Rightarrow> document_store
    \<Rightarrow> FailedBonusActivationResult js_outcome \<times> document_store" where
  "memHandler onMissing input st =
     FailedBonusActivationHandler (\<lambda>x. x) mem_bonusActivationModel
       (mem_bonusLeaseModel onMissing) (mem_eligibilityCheckModel onMissing) input st"

text \<open>
  A store that holds the eligibility check of the applicant of the mocks and the lease
  of the family.
\<close>

definition aStore :: document_store where
  "aStore = \<lparr>eligibilityChecks = [''AAABBB80A01C123D''], bonusActivations = [],
             bonusLeases = [''aFamilyUid'']\<rparr>"

text \<open>The three calls of a compensation, as the recording store sees them.\<close>

definition step1 :: "BonusActivationWithFamilyUID \<Rightarrow> db_call" where
  "step1 b = EligibilityCheck_deleteOneById (ba_id b)"

definition failedDocument :: "BonusActivationWithFamilyUID \<Rightarrow> NewBonusActivation" where
  "failedDocument b = INewBonusActivation (b\<lparr>ba_status := FAILED\<rparr>)"

definition step2 :: "BonusActivationWithFamilyUID \<Rightarrow> db_call" where
  "step2 b = BonusActivation_createOrUpdate (failedDocument b) (ba_id b)"

definition step3 :: "RetrievedBonusActivation \<Rightarrow> db_call" where
  "step3 r = BonusLease_deleteOneById (familyUID (retrievedBonus r))"

section \<open>utils/hash: toHash and generateFamilyUID\<close>

subsection \<open>SHA-256\<close>

text \<open>
  \<open>toHash\<close> is \<open>crypto.createHash("sha256")\<close>, \<open>update\<close> and \<open>digest("hex")\<close>:
  SHA-256 of FIPS 180-4 over the bytes of the string, printed as 64 lower-case
  hexadecimal digits. A 32-bit word is the list of its 32 bits, least significant first;
  a string is the list of its bytes (the UTF-8 encoding that \<open>update\<close> applies is the
  identity on ASCII).
\<close>

type_synonym bits = "bool list"

fun xorb :: "bits \<Rightarrow> bits \<Rightarrow> bits" where
  "xorb (x # xs) (y # ys) = (x \<noteq> y) # xorb xs ys"
| "xorb _ _ = []"

fun andb :: "bits \<Rightarrow> bits \<Rightarrow> bits" where
  "andb (x # xs) (y # ys) = (x \<and> y) # andb xs ys"
| "andb _ _ = []"

fun notb :: "bits \<Rightarrow> bits" where
  "notb (x # xs) = (\<not> x) # notb xs"
| "notb [] = []"

text \<open>Addition modulo \<open>2 ^ 32\<close>: a ripple-carry adder whose last carry is dropped.\<close>

fun addc :: "bool \<Rightarrow> bits \<Rightarrow> bits \<Rightarrow> bits" where
  "addc c (x # xs) (y # ys) =
     ((x \<noteq> y) \<noteq> c) # addc ((x \<and> y) \<or> (c \<and> (x \<noteq> y))) xs ys"
| "addc c _ _ = []"

definition add32 :: "bits \<Rightarrow> bits \<Rightarrow> bits" where
  "add32 a b = addc False a b"

text \<open>
  Rotation and shift to the right by \<open>n\<close>: with the least significant bit first, the
  low \<open>n\<close> bits leave the front of the list.
\<close>

definition rotr :: "nat \<Rightarrow> bits \<Rightarrow> bits" where
  "rotr n x = drop n x @ take n x"

definition shr :: "nat \<Rightarrow> bits \<Rightarrow> bits" where
  "shr n x = drop n x @ replicate n False"

definition Ch :: "bits \<Rightarrow> bits \<Rightarrow> bits \<Rightarrow> bits" where
  "Ch x y z = xorb (andb x y) (andb (notb x) z)"

definition Maj :: "bits \<Rightarrow> bits \<Rightarrow> bits \<Rightarrow> bits" where
  "Maj x y z = xorb (xorb (andb x y) (andb x z)) (andb y z)"

definition bigSigma0 :: "bits \<Rightarrow> bits" where
  "bigSigma0 x = xorb (xorb (rotr 2 x) (rotr 13 x)) (rotr 22 x)"

definition bigSigma1 :: "bits \<Rightarrow> bits" where
  "bigSigma1 x = xorb (xorb (rotr 6 x) (rotr 11 x)) (rotr 25 x)"

definition smallSigma0 :: "bits \<Rightarrow> bits" where
  "smallSigma0 x = xorb (xorb (rotr 7 x) (rotr 18 x)) (shr 3 x)"

definition smallSigma1 :: "bits \<Rightarrow> bits" where
  "smallSigma1 x = xorb (xorb (rotr 17 x) (rotr 19 x)) (shr 10 x)"

fun bits_of :: "nat \<Rightarrow> int \<Rightarrow> bits" where
  "bits_of 0 n = []"
| "bits_of (Suc k) n = (n mod 2 = 1) # bits_of k (n div 2)"

definition w32 :: "int \<Rightarrow> bits" where
  "w32 n = bits_of 32 n"

text \<open>
  The constants of FIPS 180-4, in decimal: the 64 round constants (the first 32 bits of
  the fractional parts of the cube roots of the first 64 primes) and the initial hash
  value (of the square roots of the first 8 primes).
\<close>

definition sha256_K :: "bits list" where
  "sha256_K = map w32
    [1116352408, 1899447441, 3049323471, 3921009573, 961987163, 1508970993, 2453635748,
     2870763221, 3624381080, 310598401, 607225278, 1426881987, 1925078388, 2162078206,
     2614888103, 3248222580, 3835390401, 4022224774, 264347078, 604807628, 770255983,
     1249150122, 1555081692, 1996064986, 2554220882, 2821834349, 2952996808,
     3210313671, 3336571891, 3584528711, 113926993, 338241895, 666307205, 773529912,
     1294757372, 1396182291, 1695183700, 1986661051, 2177026350, 2456956037,
     2730485921, 2820302411, 3259730800, 3345764771, 3516065817, 3600352804,
     4094571909, 275423344, 430227734, 506948616, 659060556, 883997877, 958139571,
     1322822218, 1537002063, 1747873779, 1955562222, 2024104815, 2227730452,
     2361852424, 2428436474, 2756734187, 3204031479, 3329325298]"

definition sha256_H0 :: "bits list" where
  "sha256_H0 = map w32
    [1779033703, 3144134277, 1013904242, 2773480762, 1359893119, 2600822924, 528734635,
     1541459225]"

text \<open>
  The message schedule, kept with the latest word first: word \<open>t\<close> is made of the
  words \<open>t - 2\<close>, \<open>t - 7\<close>, \<open>t - 15\<close> and \<open>t - 16\<close>.
\<close>

fun schedule :: "nat \<Rightarrow> bits list \<Rightarrow> bits list" where
  "schedule 0 ws = ws"
| "schedule (Suc n) ws =
     schedule n
       (add32 (add32 (add32 (smallSigma1 (ws ! 1)) (ws ! 6)) (smallSigma0 (ws ! 14))) (ws ! 15)
        # ws)"

fun round_update :: "bits list \<Rightarrow> bits \<Rightarrow> bits \<Rightarrow> bits list" where
  "round_update [a, b, c, d, e, f, g, h] t1 t2 =
     [add32 t1 t2, a, b, c, add32 d t1, e, f, g]"
| "round_update st _ _ = st"

fun round256 :: "bits list \<Rightarrow> (bits \<times> bits) \<Rightarrow> bits list" where
  "round256 [a, b, c, d, e, f, g, h] (k, w) =
     round_update [a, b, c, d, e, f, g, h]
       (add32 (add32 (add32 (add32 h (bigSigma1 e)) (Ch e f g)) k) w)
       (add32 (bigSigma0 a) (Maj a b c))"
| "round256 st _ = st"

fun add_words :: "bits list \<Rightarrow> bits list \<Rightarrow> bits list" where
  "add_words (x # xs) (y # ys) = add32 x y # add_words xs ys"
| "add_words _ _ = []"

definition compress :: "bits list \<Rightarrow> bits list \<Rightarrow> bits list" where
  "compress st block =
     add_words st (foldl round256 st (zip sha256_K (rev (schedule 48 (rev block)))))"

text \<open>A byte is a character; its bits, least significant first.\<close>

fun byte_bits :: "char \<Rightarrow> bits" where
  "byte_bits (Char b0 b1 b2 b3 b4 b5 b6 b7) = [b0, b1, b2, b3, b4, b5, b6, b7]"

text \<open>Four bytes make a word, the first byte the most significant.\<close>

fun be32 :: "bits list \<Rightarrow> bits" where
  "be32 [b0, b1, b2, b3] = b3 @ b2 @ b1 @ b0"
| "be32 _ = []"

fun chop :: "nat \<Rightarrow> nat \<Rightarrow> 'a list \<Rightarrow> 'a list list" where
  "chop 0 k xs = []"
| "chop (Suc n) k xs = take k xs # chop n k (drop k xs)"

text \<open>
  Padding: the byte \<open>0x80\<close>, zero bytes up to 56 modulo 64, and the length of the
  message in bits as eight bytes, the most significant first.
\<close>

definition pad :: "bits list \<Rightarrow> bits list" where
  "pad m =
     m @ [bits_of 8 128]
       @ replicate ((55 + 64 - length m mod 64) mod 64) (bits_of 8 0)
       @ rev (chop 8 8 (bits_of 64 (8 * int (length m))))"

fun sha256_blocks :: "bits list \<Rightarrow> bits list list \<Rightarrow> bits list" where
  "sha256_blocks st [] = st"
| "sha256_blocks st (b # bs) = sha256_blocks (compress st (map be32 (chop 16 4 b))) bs"

definition sha256 :: "bits list \<Rightarrow> bits list" where
  "sha256 m = sha256_blocks sha256_H0 (chop (length (pad m) div 64) 64 (pad m))"

fun nibble :: "bits \<Rightarrow> char" where
  "nibble [b0, b1, b2, b3] =
     ''0123456789abcdef'' !
       ((if b0 then 1 else 0) + (if b1 then 2 else 0) + (if b2 then 4 else 0)
          + (if b3 then 8 else 0))"
| "nibble _ = CHR ''?''"

text \<open>The eight hexadecimal digits of a word, the most significant first.\<close>

definition hex32 :: "bits \<Rightarrow> string" where
  "hex32 w = map nibble (rev (chop 8 4 w))"

definition toHash :: "string \<Rightarrow> string" where
  "toHash s = concat (map hex32 (sha256 (map byte_bits s)))"

subsection \<open>generateFamilyUID\<close>

text \<open>
  \<open>sort((a, b) => a.localeCompare(b))\<close> on fiscal codes. A \<open>FiscalCode\<close> is made of the
  upper-case letters and the digits, on which the locale's collation is the order of the
  character codes (digits before letters, letters in alphabetical order), so the sort is
  the sort of strings in lexicographic order of their characters.
\<close>

definition sortFiscalCodes :: "string list \<Rightarrow> string list" where
  "sortFiscalCodes cs = sort cs"

text \<open>\<open>Array.prototype.join\<close>: the elements with the separator between them.\<close>

fun join :: "string \<Rightarrow> string list \<Rightarrow> string" where
  "join sep [] = []"
| "join sep [x] = x"
| "join sep (x # y # ys) = x @ sep @ join sep (y # ys)"

text \<open>
  \<open>FamilyUID.decode\<close> is a generated codec: it is the parameter \<open>decodeFamilyUID\<close>,
  which gives the readable report of the errors (left) or the decoded value (right).
  When it fails the function throws an \<open>Error\<close> whose message names the family and the
  report; the family is kept as it is in the error value.
\<close>

datatype generate_error = CannotGenerateFamilyUID "FamilyMember list" string

definition familySeed :: "FamilyMember list \<Rightarrow> string" where
  "familySeed members = join [] (sortFiscalCodes (map fiscalCode members))"

definition generateFamilyUID ::
  "(string \<Rightarrow> string + string) \<Rightarrow> FamilyMember list \<Rightarrow> generate_error + string" where
  "generateFamilyUID decodeFamilyUID members =
     (case decodeFamilyUID (toHash (familySeed members)) of
        Inl err \<Rightarrow> Inl (CannotGenerateFamilyUID members err)
      | Inr uid \<Rightarrow> Inr uid)"

text \<open>Family members of the mocks.\<close>

definition aFamilyMember :: FamilyMember where
  "aFamilyMember = \<lparr>fiscalCode = ''AAABBB80A01C123D'', name = ''Mario'', surname = ''Rossi''\<rparr>"

definition anotherFamilyMember :: FamilyMember where
  "anotherFamilyMember =
     \<lparr>fiscalCode = ''CCCDDD80A01C123D'', name = ''Chiara'', surname = ''Bianchi''\<rparr>"


text \<open>The number that a list of bits stands for, to state what the adder computes.\<close>

fun bits_val :: "bits \<Rightarrow> nat" where
  "bits_val [] = 0"
| "bits_val (b # bs) = (if b then 1 else 0) + 2 * bits_val bs"


section \<open>Numbers and dates as strings\<close>

text \<open>\<open>Number.prototype.toString\<close> on an integer: its decimal digits, with a sign.\<close>

fun digits :: "nat \<Rightarrow> string" where
  "digits n =
     (if n < 10 then [''0123456789'' ! n] else digits (n div 10) @ [''0123456789'' ! (n mod 10)])"

definition toString :: "int \<Rightarrow> string" where
  "toString i = (if i < 0 then ''-'' @ digits (nat (- i)) else digits (nat i))"

text \<open>\<open>padStart(n, "0")\<close> of the decimal digits.\<close>

definition padZero :: "nat \<Rightarrow> nat \<Rightarrow> string" where
  "padZero w n = replicate (w - length (digits n)) (CHR ''0'') @ digits n"

text \<open>
  \<open>Date.prototype.toISOString\<close>: \<open>YYYY-MM-DDTHH:mm:ss.sssZ\<close>, in UTC; a year outside
  0 to 9999 is written with a sign and six digits. The month of a \<open>Date\<close> counts from 0.
\<close>

definition toISOString :: "js_date \<Rightarrow> string" where
  "toISOString d =
     (if 0 \<le> utcFullYear d \<and> utcFullYear d \<le> 9999 then padZero 4 (nat (utcFullYear d))
      else (if utcFullYear d < 0 then ''-'' else ''+'') @ padZero 6 (nat \<bar>utcFullYear d\<bar>))
     @ ''-'' @ padZero 2 (utcMonth d + 1) @ ''-'' @ padZero 2 (utcDate d)
     @ ''T'' @ padZero 2 (utcHours d) @ '':'' @ padZero 2 (utcMinutes d)
     @ '':'' @ padZero 2 (utcSeconds d) @ ''.'' @ padZero 3 (utcMilliseconds d) @ ''Z''"

section \<open>utils/conversions: toEligibilityCheckFromDSU\<close>

text \<open>The response of the DSU service (\<open>ConsultazioneSogliaIndicatoreResponse\<close>).\<close>

datatype EsitoEnum = OK | DATI_NON_TROVATI | RICHIESTA_INVALIDA | OtherEsito string

datatype SiNoTypeEnum = SI | NO

record Componente =
  CodiceFiscale :: string
  Nome :: string
  Cognome :: string

record DatiIndicatore =
  Componenti :: "Componente list option"
  SottoSoglia :: SiNoTypeEnum
  DataPresentazioneDSU :: js_date
  ProtocolloDSU :: "string option"
  PresenzaDifformita :: "SiNoTypeEnum option"
  TipoIndicatore :: string

record ConsultazioneSogliaIndicatoreResponse =
  Esito :: EsitoEnum
  DescrizioneErrore :: "string option"
  IdRichiesta :: int
  DatiIndicatore :: "DatiIndicatore option"

text \<open>
  The API objects (\<open>generated/definitions\<close>). An \<open>EligibilityCheck\<close> of the API is one
  object with a \<open>status\<close>; the fields that a variant does not have are absent. The field
  \<open>id\<close> of the source is \<open>id'\<close> here, and \<open>name\<close> and \<open>surname\<close> of a family
  member of the API are \<open>name'\<close> and \<open>surname'\<close>.
\<close>

record ApiFamilyMember =
  fiscal_code :: string
  name' :: string
  surname' :: string

record ApiDsu =
  dsu_created_at :: js_date
  dsu_protocol_id :: string
  family_members :: "ApiFamilyMember list"
  has_discrepancies :: bool
  isee_type :: string
  max_amount :: int
  max_tax_benefit :: int
  request_id :: string

datatype StatusEnum = ELIGIBLE | INELIGIBLE | FAILURE | CONFLICT

datatype ErrorEnum = DATA_NOT_FOUND | INVALID_REQUEST | INTERNAL_ERROR | DATABASE_OFFLINE

record ApiEligibilityCheck =
  id' :: string
  status :: StatusEnum
  dsu_request :: "ApiDsu option"
  valid_before :: "js_date option"
  error :: "ErrorEnum option"
  error_description :: "string option"

definition EligibilityCheckFailure_encode :: "ErrorEnum \<Rightarrow> string \<Rightarrow> string \<Rightarrow> ApiEligibilityCheck" where
  "EligibilityCheckFailure_encode err description ident =
     \<lparr>id' = ident, status = FAILURE, dsu_request = None, valid_before = None,
      error = Some err, error_description = Some description\<rparr>"

definition EligibilityCheckSuccessEligible_encode ::
  "ApiDsu \<Rightarrow> string \<Rightarrow> js_date \<Rightarrow> ApiEligibilityCheck" where
  "EligibilityCheckSuccessEligible_encode dsu ident validBefore =
     \<lparr>id' = ident, status = ELIGIBLE, dsu_request = Some dsu, valid_before = Some validBefore,
      error = None, error_description = None\<rparr>"

definition EligibilityCheckSuccessIneligible_encode :: "string \<Rightarrow> ApiEligibilityCheck" where
  "EligibilityCheckSuccessIneligible_encode ident =
     \<lparr>id' = ident, status = INELIGIBLE, dsu_request = None, valid_before = None,
      error = None, error_description = None\<rparr>"

text \<open>
  The generated definitions that the conversion reads are its parameters: the values that
  \<open>MaxBonusAmount150.decode({})\<close>, \<open>MaxBonusAmount250.decode({})\<close> and
  \<open>MaxBonusAmount500.decode({})\<close> give, the range of \<open>FamilyMemberCount\<close> with the
  report of a count outside it, and the validity of a \<open>FamilyMember\<close>.
\<close>

record MaxBonusAmount =
  bonus_max_amount :: int
  bonus_max_tax_benefit :: int

record generated_definitions =
  MaxBonusAmount150 :: MaxBonusAmount
  MaxBonusAmount250 :: MaxBonusAmount
  MaxBonusAmount500 :: MaxBonusAmount
  FamilyMemberCount_is :: "int \<Rightarrow> bool"
  FamilyMemberCount_report :: "int \<Rightarrow> string"
  FamilyMember_is :: "ApiFamilyMember \<Rightarrow> bool"

definition calculateMaxBonusAmountFromFamilyMemberCount ::
  "generated_definitions \<Rightarrow> int \<Rightarrow> MaxBonusAmount js_outcome" where
  "calculateMaxBonusAmountFromFamilyMemberCount g familyMemberCount =
     (if familyMemberCount > 2 then Returned (MaxBonusAmount500 g)
      else if familyMemberCount = 2 then Returned (MaxBonusAmount250 g)
      else if familyMemberCount = 1 then Returned (MaxBonusAmount150 g)
      else Threw (Error (''FATAL: family member count is not greater than 0 [''
                          @ toString familyMemberCount @ '']'')))"

text \<open>\<open>a || b\<close> on an optional string: the empty string is falsy as well.\<close>

definition orElse :: "string option \<Rightarrow> string \<Rightarrow> string" where
  "orElse a b = (case a of None \<Rightarrow> b | Some s \<Rightarrow> if s = [] then b else s)"

text \<open>\<open>data.DatiIndicatore?.Componenti || []\<close>.\<close>

definition componentiOf :: "ConsultazioneSogliaIndicatoreResponse \<Rightarrow> Componente list" where
  "componentiOf data =
     (case DatiIndicatore data of
        None \<Rightarrow> []
      | Some d \<Rightarrow> (case Componenti d of None \<Rightarrow> [] | Some cs \<Rightarrow> cs))"

definition toFamilyMember :: "Componente \<Rightarrow> ApiFamilyMember" where
  "toFamilyMember c = \<lparr>fiscal_code = CodiceFiscale c, name' = Nome c, surname' = Cognome c\<rparr>"

definition esitoError :: "EsitoEnum \<Rightarrow> ErrorEnum" where
  "esitoError e =
     (if e = DATI_NON_TROVATI then DATA_NOT_FOUND
      else if e = RICHIESTA_INVALIDA then INVALID_REQUEST
      else INTERNAL_ERROR)"

definition toEligibilityCheckFromDSU ::
  "generated_definitions \<Rightarrow> ConsultazioneSogliaIndicatoreResponse \<Rightarrow> string \<Rightarrow> js_date
    \<Rightarrow> ApiEligibilityCheck js_outcome" where
  "toEligibilityCheckFromDSU g data requester validBefore =
     (if componentiOf data = [] then
        Returned (EligibilityCheckFailure_encode INTERNAL_ERROR
                    ''DatiIndicatore.Componenti is empty'' requester)
      else if \<not> FamilyMemberCount_is g (int (length (componentiOf data))) then
        Returned (EligibilityCheckFailure_encode INTERNAL_ERROR
                    (''Family member count is out of range [''
                       @ FamilyMemberCount_report g (int (length (componentiOf data))) @ '']'')
                    requester)
      else
        (case calculateMaxBonusAmountFromFamilyMemberCount g
                (int (length (componentiOf data))) of
           Threw e \<Rightarrow> Threw e
         | Returned bonusValue \<Rightarrow>
             (let validFamilyMembers =
                    filter (FamilyMember_is g) (map toFamilyMember (componentiOf data))
              in if Esito data \<noteq> OK then
                   Returned (EligibilityCheckFailure_encode (esitoError (Esito data))
                               (orElse (DescrizioneErrore data) ''Esito value is not OK'')
                               requester)
                 else
                   (case DatiIndicatore data of
                      None \<Rightarrow> Returned (EligibilityCheckSuccessIneligible_encode requester)
                    | Some d \<Rightarrow>
                        if SottoSoglia d = SI then
                          Returned (EligibilityCheckSuccessEligible_encode
                            \<lparr>dsu_created_at = DataPresentazioneDSU d,
                             dsu_protocol_id = orElse (ProtocolloDSU d) [],
                             family_members = validFamilyMembers,
                             has_discrepancies = (PresenzaDifformita d = Some SI),
                             isee_type = TipoIndicatore d,
                             max_amount = bonus_max_amount bonusValue,
                             max_tax_benefit = bonus_max_tax_benefit bonusValue,
                             request_id = toString (IdRichiesta data)\<rparr>
                            requester validBefore)
                        else Returned (EligibilityCheckSuccessIneligible_encode requester)))))"

text \<open>
  An instance of the generated definitions, to evaluate the conversion: the amounts of
  150, 250 and 500 euros, a family of 1 to 20 members, and every member valid.
\<close>

definition someDefinitions :: generated_definitions where
  "someDefinitions =
     \<lparr>MaxBonusAmount150 = \<lparr>bonus_max_amount = 150, bonus_max_tax_benefit = 30\<rparr>,
      MaxBonusAmount250 = \<lparr>bonus_max_amount = 250, bonus_max_tax_benefit = 50\<rparr>,
      MaxBonusAmount500 = \<lparr>bonus_max_amount = 500, bonus_max_tax_benefit = 100\<rparr>,
      FamilyMemberCount_is = (\<lambda>n. 1 \<le> n \<and> n \<le> 20),
      FamilyMemberCount_report = (\<lambda>n. ''value is not a valid family member count''),
      FamilyMember_is = (\<lambda>m. True)\<rparr>"

text \<open>A response of the DSU service without family members.\<close>

definition anEmptyResponse :: ConsultazioneSogliaIndicatoreResponse where
  "anEmptyResponse =
     \<lparr>Esito = OK, DescrizioneErrore = None, IdRichiesta = 1,
      DatiIndicatore =
        Some \<lparr>Componenti = Some [], SottoSoglia = SI, DataPresentazioneDSU = aDate,
              ProtocolloDSU = None, PresenzaDifformita = None, TipoIndicatore = ''ISEE''\<rparr>\<rparr>"


declare digits.simps [simp del]

section \<open>ValidateEligibilityCheckActivity/handler\<close>

text \<open>
  What the handler throws: the decoding error with its readable report, the error of
  \<open>generateFamilyUID\<close>, \<open>Error calling bonusLeaseModel.find\<close> when the promise of the
  query is rejected, and \<open>Query Error\<close> with the query error when it resolves with a left.
\<close>

datatype validate_error =
    DecodingError string
  | TypeError
  | GenerateError generate_error
  | ErrorCallingFind
  | QueryErrorCode js_thrown

definition toModelFamilyMember :: "ApiFamilyMember \<Rightarrow> FamilyMember" where
  "toModelFamilyMember familyMember =
     \<lparr>fiscalCode = fiscal_code familyMember, name = name' familyMember,
      surname = surname' familyMember\<rparr>"

text \<open>
  The input codec (\<open>ApiEligibilityCheck\<close>, generated) is the parameter \<open>decode\<close>, with
  the readable report of the errors on the left. \<open>bonusLeaseModel.find\<close> is the
  parameter \<open>findLease\<close>: the promise of either a query error or the lease, if there is
  one. The codec gives every eligible check its \<open>dsu_request\<close>; reading
  \<open>family_members\<close> of a missing one is the \<open>TypeError\<close> of JavaScript.
\<close>

definition getValidateEligibilityCheckActivityHandler ::
  "('u \<Rightarrow> string + ApiEligibilityCheck) \<Rightarrow> (string \<Rightarrow> string + string)
    \<Rightarrow> (string \<Rightarrow> string \<Rightarrow> (js_thrown + 'l option) promise) \<Rightarrow> 'u
    \<Rightarrow> validate_error + ApiEligibilityCheck" where
  "getValidateEligibilityCheckActivityHandler decode decodeFamilyUID findLease input =
     (case decode input of
        Inl report \<Rightarrow> Inl (DecodingError report)
      | Inr eligibilityCheck \<Rightarrow>
          if status eligibilityCheck \<noteq> ELIGIBLE then Inr eligibilityCheck
          else
            (case dsu_request eligibilityCheck of
               None \<Rightarrow> Inl TypeError
             | Some dsu \<Rightarrow>
                 (case generateFamilyUID decodeFamilyUID
                         (map toModelFamilyMember (family_members dsu)) of
                    Inl e \<Rightarrow> Inl (GenerateError e)
                  | Inr uid \<Rightarrow>
                      (case findLease uid uid of
                         Rejected _ \<Rightarrow> Inl ErrorCallingFind
                       | Resolved (Inl queryError) \<Rightarrow> Inl (QueryErrorCode queryError)
                       | Resolved (Inr None) \<Rightarrow> Inr eligibilityCheck
                       | Resolved (Inr (Some bonusLease)) \<Rightarrow>
                           Inr (eligibilityCheck\<lparr>status := CONFLICT\<rparr>)))))"

text \<open>An eligible check of the API with the family of the mocks.\<close>

definition anApiDsu :: ApiDsu where
  "anApiDsu =
     \<lparr>dsu_created_at = aDate, dsu_protocol_id = ''aDsuProtocolId'',
      family_members =
        [\<lparr>fiscal_code = ''AAABBB80A01C123D'', name' = ''Mario'', surname' = ''Rossi''\<rparr>,
         \<lparr>fiscal_code = ''CCCDDD80A01C123D'', name' = ''Chiara'', surname' = ''Bianchi''\<rparr>],
      has_discrepancies = False, isee_type = ''iseeType'', max_amount = 200,
      max_tax_benefit = 80, request_id = ''aRequestId''\<rparr>"

definition anEligibleCheck :: ApiEligibilityCheck where
  "anEligibleCheck =
     EligibilityCheckSuccessEligible_encode anApiDsu ''AAABBB80A01C123D'' aDate"

text \<open>A lease store given by the list of the family UIDs that hold a lease.\<close>

definition findIn :: "string list \<Rightarrow> string \<Rightarrow> string \<Rightarrow> (js_thrown + string option) promise" where
  "findIn leases k partitionKey =
     Resolved (Inr (if k \<in> set leases then Some k else None))"

section \<open>clients/adeClient\<close>

subsection \<open>JSON values\<close>

datatype json =
    JNull
  | JBool bool
  | JNumber int
  | JString string
  | JArray "json list"
  | JObject "(string \<times> json) list"

text \<open>
  \<open>JSON.stringify\<close>: strings are quoted, with the quote, the backslash and the control
  characters escaped; members are separated by commas, without spaces.
\<close>

definition hexDigit :: "nat \<Rightarrow> char" where
  "hexDigit n = ''0123456789abcdef'' ! n"

definition escapeChar :: "char \<Rightarrow> string" where
  "escapeChar c =
     (if c = CHR 0x22 then [CHR 0x5C, CHR 0x22]
      else if c = CHR 0x5C then [CHR 0x5C, CHR 0x5C]
      else if c = CHR 0x08 then [CHR 0x5C, CHR ''b'']
      else if c = CHR 0x0C then [CHR 0x5C, CHR ''f'']
      else if c = CHR 0x0A then [CHR 0x5C, CHR ''n'']
      else if c = CHR 0x0D then [CHR 0x5C, CHR ''r'']
      else if c = CHR 0x09 then [CHR 0x5C, CHR ''t'']
      else if (of_char c :: nat) < 32 then
        [CHR 0x5C, CHR ''u'', CHR ''0'', CHR ''0'',
         hexDigit (of_char c div 16), hexDigit (of_char c mod 16)]
      else [c])"

definition quote :: "string \<Rightarrow> string" where
  "quote s = [CHR 0x22] @ concat (map escapeChar s) @ [CHR 0x22]"

fun stringify :: "json \<Rightarrow> string" where
  "stringify JNull = ''null''"
| "stringify (JBool b) = (if b then ''true'' else ''false'')"
| "stringify (JNumber n) = toString n"
| "stringify (JString s) = quote s"
| "stringify (JArray xs) = ''['' @ join '','' (map stringify xs) @ '']''"
| "stringify (JObject kvs) =
     ''{'' @ join '','' (map (\<lambda>kv. quote (fst kv) @ '':'' @ stringify (snd kv)) kvs) @ ''}''"

text \<open>The property of an object; \<open>undefined\<close> is \<open>None\<close>.\<close>

fun property :: "string \<Rightarrow> json \<Rightarrow> json option" where
  "property k (JObject kvs) = map_of kvs k"
| "property k _ = None"

subsection \<open>Custom error codes\<close>

text \<open>
  Each error codec is the intersection of the generated \<open>BonusVacanzaError\<close>, the
  parameter \<open>isBonusVacanzaError\<close>, with an interface whose \<open>errorCode\<close> is one
  literal.
\<close>

definition hasErrorCode :: "(json \<Rightarrow> bool) \<Rightarrow> string \<Rightarrow> json \<Rightarrow> bool" where
  "hasErrorCode isBonusVacanzaError code v \<longleftrightarrow>
     isBonusVacanzaError v \<and> property ''errorCode'' v = Some (JString code)"

definition BonusVacanzaGenericError :: "(json \<Rightarrow> bool) \<Rightarrow> json \<Rightarrow> bool" where
  "BonusVacanzaGenericError b = hasErrorCode b ''4000''"

definition BonusVacanzaApplicationGenericError :: "(json \<Rightarrow> bool) \<Rightarrow> json \<Rightarrow> bool" where
  "BonusVacanzaApplicationGenericError b = hasErrorCode b ''3000''"

definition BonusVacanzaCodeAlreadyPresentError :: "(json \<Rightarrow> bool) \<Rightarrow> json \<Rightarrow> bool" where
  "BonusVacanzaCodeAlreadyPresentError b = hasErrorCode b ''1000''"

definition BonusVacanzaRequestedByOtherFamilyMemberError :: "(json \<Rightarrow> bool) \<Rightarrow> json \<Rightarrow> bool" where
  "BonusVacanzaRequestedByOtherFamilyMemberError b = hasErrorCode b ''1005''"

definition BonusVacanzaEmptyFamilyError :: "(json \<Rightarrow> bool) \<Rightarrow> json \<Rightarrow> bool" where
  "BonusVacanzaEmptyFamilyError b = hasErrorCode b ''900''"

definition BonusVacanzaNoFiscalCodeProvidedProvidedError :: "(json \<Rightarrow> bool) \<Rightarrow> json \<Rightarrow> bool" where
  "BonusVacanzaNoFiscalCodeProvidedProvidedError b = hasErrorCode b ''907''"

definition BonusVacanzaNoGenerationDateProvidedProvidedError :: "(json \<Rightarrow> bool) \<Rightarrow> json \<Rightarrow> bool" where
  "BonusVacanzaNoGenerationDateProvidedProvidedError b = hasErrorCode b ''908''"

text \<open>The errors grouped by meaning: the unions of the codecs.\<close>

definition BonusVacanzaTransientError :: "(json \<Rightarrow> bool) \<Rightarrow> json \<Rightarrow> bool" where
  "BonusVacanzaTransientError b v \<longleftrightarrow>
     BonusVacanzaGenericError b v \<or> BonusVacanzaApplicationGenericError b v"

definition BonusVacanzaInvalidRequestError :: "(json \<Rightarrow> bool) \<Rightarrow> json \<Rightarrow> bool" where
  "BonusVacanzaInvalidRequestError b v \<longleftrightarrow>
     BonusVacanzaCodeAlreadyPresentError b v
     \<or> BonusVacanzaRequestedByOtherFamilyMemberError b v
     \<or> BonusVacanzaEmptyFamilyError b v
     \<or> BonusVacanzaNoFiscalCodeProvidedProvidedError b v
     \<or> BonusVacanzaNoGenerationDateProvidedProvidedError b v"

subsection \<open>serializeBonus\<close>

record FamilyMemberFiscalCode =
  codiceFiscale :: string

record BonusVacanzaWithoutMac =
  codiceFiscaleDichiarante :: string
  codiceBuono :: string
  importoMassimo :: int
  dataGenerazione :: js_date
  flagDifformita :: int
  nucleoFamiliare :: "FamilyMemberFiscalCode list"

definition serializeBonus :: "BonusVacanzaWithoutMac \<Rightarrow> string" where
  "serializeBonus bv =
     join []
       ([codiceFiscaleDichiarante bv,
         codiceBuono bv,
         toString (importoMassimo bv),
         toISOString (dataGenerazione bv),
         toString (flagDifformita bv)]
        @ sortFiscalCodes (map codiceFiscale (nucleoFamiliare bv)))"

definition aBonusVacanza :: BonusVacanzaWithoutMac where
  "aBonusVacanza =
     \<lparr>codiceFiscaleDichiarante = ''AAABBB80A01C123D'', codiceBuono = ''AAAAAAAAAAAA'',
      importoMassimo = 200, dataGenerazione = aDate, flagDifformita = 0,
      nucleoFamiliare = [\<lparr>codiceFiscale = ''CCCDDD80A01C123D''\<rparr>,
                         \<lparr>codiceFiscale = ''AAABBB80A01C123D''\<rparr>]\<rparr>"


section \<open>StartBonusActivationOrchestrator/index\<close>

text \<open>
  \<open>OrchestratorInput\<close>; its fields \<open>familyUID\<close> and \<open>fiscalCode\<close> are
  \<open>input_familyUID\<close> and \<open>input_fiscalCode\<close> here.
\<close>

record OrchestratorInput =
  input_familyUID :: string
  input_fiscalCode :: string

text \<open>The retry options; the backoff coefficient 1.5 is the fraction 3 / 2.\<close>

record RetryOptions =
  backoffCoefficient :: "nat \<times> nat"
  firstRetryIntervalInMilliseconds :: nat
  maxNumberOfAttempts :: nat
  maxRetryIntervalInMilliseconds :: nat
  retryTimeoutInMilliseconds :: nat

definition sendRetryOptions :: RetryOptions where
  "sendRetryOptions =
     \<lparr>backoffCoefficient = (3, 2), firstRetryIntervalInMilliseconds = 1000,
      maxNumberOfAttempts = 10, maxRetryIntervalInMilliseconds = 3600 * 100,
      retryTimeoutInMilliseconds = 3600 * 1000\<rparr>"

text \<open>
  A task is what the generator yields to the durable-functions host: the call of an
  activity by name, with its input. The host runs the task and resumes the generator
  with the value of the activity, or throws the failure of the activity into it.
\<close>

datatype task_input = InputValue OrchestratorInput | InputFamilyUID string

datatype task =
    CallActivityWithRetry string RetryOptions task_input
  | CallActivity string task_input

datatype 'v task_result = Completed 'v | Faulted js_thrown

datatype orchestration_end = Finished bool | Failed js_thrown

text \<open>
  The generator, run against a host. The host is a function of the tasks yielded so far
  and of the task to run. \<open>OrchestratorInput.decode\<close> is the parameter \<open>decode\<close>
  and \<open>SendBonusActivationFailure.is\<close> the parameter \<open>isSendFailure\<close>. The generator
  has no \<open>try\<close>: a failure thrown into it ends the orchestration. The result is the list
  of the tasks yielded, in order, and how the orchestration ended.
\<close>

definition handler ::
  "('i \<Rightarrow> OrchestratorInput option) \<Rightarrow> ('v \<Rightarrow> bool) \<Rightarrow> (task list \<Rightarrow> task \<Rightarrow> 'v task_result)
    \<Rightarrow> 'i \<Rightarrow> task list \<times> orchestration_end" where
  "handler decode isSendFailure host input =
     (case decode input of
        None \<Rightarrow> ([], Finished False)
      | Some v \<Rightarrow>
          (let t1 = CallActivityWithRetry ''SendBonusActivationActivity'' sendRetryOptions
                      (InputValue v)
           in case host [] t1 of
                Faulted e \<Rightarrow> ([t1], Failed e)
              | Completed undecodedSendBonusActivation \<Rightarrow>
                  (let t2 = (if isSendFailure undecodedSendBonusActivation
                             then CallActivity ''FailedBonusActivationActivity'' (InputValue v)
                             else CallActivity ''SuccessBonusActivationActivity'' (InputValue v))
                   in case host [t1] t2 of
                        Faulted e \<Rightarrow> ([t1, t2], Failed e)
                      | Completed _ \<Rightarrow>
                          (let t3 = CallActivity ''UnlockBonusActivationActivity''
                                      (InputFamilyUID (input_familyUID v))
                           in case host [t1, t2] t3 of
                                Faulted e \<Rightarrow> ([t1, t2, t3], Failed e)
                              | Completed _ \<Rightarrow> ([t1, t2, t3], Finished True)))))"

text \<open>The first two tasks of a run: the send, and the activity of the branch taken.\<close>

definition sendTask :: "OrchestratorInput \<Rightarrow> task" where
  "sendTask v = CallActivityWithRetry ''SendBonusActivationActivity'' sendRetryOptions (InputValue v)"

definition branchTask :: "bool \<Rightarrow> OrchestratorInput \<Rightarrow> task" where
  "branchTask failed v =
     (if failed then CallActivity ''FailedBonusActivationActivity'' (InputValue v)
      else CallActivity ''SuccessBonusActivationActivity'' (InputValue v))"

text \<open>The task that releases the lease of a family, and how often a run yields it.\<close>

definition unlockTask :: "string \<Rightarrow> task" where
  "unlockTask fuid = CallActivity ''UnlockBonusActivationActivity'' (InputFamilyUID fuid)"

definition unlocks :: "string \<Rightarrow> task list \<Rightarrow> nat" where
  "unlocks fuid ts = count_list ts (unlockTask fuid)"

definition anOrchestratorInput :: OrchestratorInput where
  "anOrchestratorInput = \<lparr>input_familyUID = ''aFamilyUid'', input_fiscalCode = ''AAABBB80A01C123D''\<rparr>"

text \<open>
  Two hosts: one on which every activity completes with the value given, and one on
  which \<open>SendBonusActivationActivity\<close> fails after its retries, as it does when the
  activity keeps throwing a transient error.
\<close>

definition completingHost :: "'v \<Rightarrow> task list \<Rightarrow> task \<Rightarrow> 'v task_result" where
  "completingHost v history t = Completed v"

definition sendFailingHost :: "task list \<Rightarrow> task \<Rightarrow> bool task_result" where
  "sendFailingHost history t =
     (case t of
        CallActivityWithRetry n opts i \<Rightarrow> Faulted (Error ''transient failure'')
      | CallActivity n i \<Rightarrow> Completed False)"




section \<open>SendBonusActivationActivity: the classification of the response\<close>

text \<open>
  The response of \<open>adeClient.richiestaBonus\<close>: status, headers and the decoded body.
\<close>

record ApiResponse =
  response_status :: nat
  response_headers :: json
  response_value :: json

definition responseJson :: "ApiResponse \<Rightarrow> json" where
  "responseJson r =
     JObject [(''headers'', response_headers r), (''status'', JNumber (int (response_status r))),
              (''value'', response_value r)]"

datatype SendBonusActivationResult =
    SendSuccess
  | SendInvalidInput
  | SendFailureInvalidRequest json
  | SendFailureUnhandled string

datatype send_fault = TransientResponse ApiResponse | ADEServiceFailure string

text \<open>
  Modelled from the spec: the handler of SendBonusActivationActivity is not among the
  sources (only its tests and the error codecs of the client are). The table of the
  specification, in its order: a 2xx response with a grant confirmation is a success; a
  payload of a known validation-error shape is the failure \<open>InvalidRequest\<close> with the
  payload as its reason; a payload of a known transient shape is raised as a fault; any
  other response is the failure \<open>Unhandled\<close> whose reason is the response serialized as
  a string. The shapes are the codecs of
  \<open>clients/adeClient\<close>; \<open>isConfirmation\<close> stands for the codec of the grant
  confirmation.
\<close>

definition classifyResponse ::
  "(json \<Rightarrow> bool) \<Rightarrow> (json \<Rightarrow> bool) \<Rightarrow> ApiResponse \<Rightarrow> send_fault + SendBonusActivationResult" where
  "classifyResponse isBonusVacanzaError isConfirmation r =
     (if 200 \<le> response_status r \<and> response_status r < 300 \<and> isConfirmation (response_value r)
        then Inr SendSuccess
      else if BonusVacanzaInvalidRequestError isBonusVacanzaError (response_value r)
        then Inr (SendFailureInvalidRequest (response_value r))
      else if BonusVacanzaTransientError isBonusVacanzaError (response_value r)
        then Inl (TransientResponse r)
      else Inr (SendFailureUnhandled (stringify (responseJson r))))"

text \<open>
  The handler decodes its input (the codec is the parameter \<open>decode\<close>), calls
  \<open>richiestaBonus\<close> of the client with it, and classifies what the call settles with:
  a rejection is a fault, a body that the client could not decode is a failure whose
  reason is the report, a response is classified as above.
\<close>

definition SendBonusActivationHandler ::
  "(json \<Rightarrow> bool) \<Rightarrow> (json \<Rightarrow> bool) \<Rightarrow> ('u \<Rightarrow> 'b option)
    \<Rightarrow> ('b \<Rightarrow> (string + ApiResponse) promise) \<Rightarrow> 'u
    \<Rightarrow> send_fault + SendBonusActivationResult" where
  "SendBonusActivationHandler isBonusVacanzaError isConfirmation decode richiestaBonus input =
     (case decode input of
        None \<Rightarrow> Inr SendInvalidInput
      | Some bonusVacanzaBase \<Rightarrow>
          (case richiestaBonus bonusVacanzaBase of
             Rejected x \<Rightarrow> Inl (ADEServiceFailure (toError x))
           | Resolved (Inl errs) \<Rightarrow> Inr (SendFailureUnhandled errs)
           | Resolved (Inr r) \<Rightarrow> classifyResponse isBonusVacanzaError isConfirmation r))"

text \<open>
  The payloads of the tests: an error object is any object with a string \<open>errorCode\<close>
  and a string \<open>errorMessage\<close>.
\<close>

definition isErrorObject :: "json \<Rightarrow> bool" where
  "isErrorObject v \<longleftrightarrow>
     (case (property ''errorCode'' v, property ''errorMessage'' v) of
        (Some (JString c), Some (JString m)) \<Rightarrow> True
      | _ \<Rightarrow> False)"

definition errorPayload :: "string \<Rightarrow> json" where
  "errorPayload code = JObject [(''errorCode'', JString code), (''errorMessage'', JString ''an error'')]"

definition errorResponse :: "nat \<Rightarrow> json \<Rightarrow> ApiResponse" where
  "errorResponse st v = \<lparr>response_status = st, response_headers = JObject [], response_value = v\<rparr>"

section \<open>StartBonusActivation: the retry on an identifier collision\<close>









section \<open>Properties of the compensation handler\<close>

lemma throwOnTransient_simps [simp]:
  "throwOnTransient SUCCESS = Returned SUCCESS"
  "throwOnTransient INVALID_INPUT = Returned INVALID_INPUT"
  "throwOnTransient (UNHANDLED_FAILURE r) = Returned (UNHANDLED_FAILURE r)"
  "throwOnTransient TRANSIENT = Threw (Error ''transient failure'')"
  by (simp_all add: throwOnTransient_def)

lemmas rec_defs =
  recHandler_def FailedBonusActivationHandler_def deleteEligibilityCheck_def
  updateBonusAsFailed_def relaseLockForUserFamily_def rec_eligibilityCheckModel_def
  rec_bonusActivationModel_def rec_bonusLeaseModel_def

lemmas step_defs = step1_def step2_def step3_def failedDocument_def

lemmas mem_defs =
  memHandler_def FailedBonusActivationHandler_def deleteEligibilityCheck_def
  updateBonusAsFailed_def relaseLockForUserFamily_def mem_eligibilityCheckModel_def
  mem_bonusLeaseModel_def mem_bonusActivationModel_def mem_deleteDocument_def
  EligibilityCheckModel_deleteOneById_def

lemma recHandler_trace:
  "recHandler ec ba bl (Some b) =
     (case fromQueryEither (ec (ba_id b)) of
        Inl _ \<Rightarrow> (Threw (Error ''transient failure''), [step1 b])
      | Inr _ \<Rightarrow>
          (case fromQueryEither (ba (failedDocument b) (ba_id b)) of
             Inl m \<Rightarrow> (Returned (UNHANDLED_FAILURE m), [step1 b, step2 b])
           | Inr r \<Rightarrow>
               (case fromQueryEither (bl (familyUID (retrievedBonus r))) of
                  Inl m \<Rightarrow>
                    (Returned (UNHANDLED_FAILURE (''Error releasing lock: '' @ m)),
                     [step1 b, step2 b, step3 r])
                | Inr _ \<Rightarrow> (Returned SUCCESS, [step1 b, step2 b, step3 r]))))"
  by (simp add: rec_defs step_defs split: sum.splits)

lemma fromQueryEither_Inr_iff:
  "(\<exists>r. fromQueryEither p = Inr r) \<longleftrightarrow> (\<exists>r. p = Resolved (Inr r))"
  by (cases p rule: fromQueryEither.cases) auto


lemma toEligibilityCheckFromDSU_id:
  assumes "toEligibilityCheckFromDSU g data requester validBefore = Returned r"
  shows "id' r = requester"
  using assms
  by (auto simp add: toEligibilityCheckFromDSU_def Let_def EligibilityCheckFailure_encode_def
      EligibilityCheckSuccessEligible_encode_def EligibilityCheckSuccessIneligible_encode_def
      split: if_splits js_outcome.splits option.splits)

text \<open>
  C1. On the activation of the mocks (bonus code \<open>AAAAAAAAAAAA\<close>, applicant
  \<open>AAABBB80A01C123D\<close>) the first operation the handler issues is the deletion of the
  eligibility check whose key is the bonus code. Eligibility checks are stored under the
  fiscal code of the requester, so on a store that holds the eligibility check of the
  applicant the compensation leaves that check in place: when the client reports the
  missing document as an error the handler throws \<open>transient failure\<close> and the store is
  unchanged; when the client reports nothing the handler returns \<open>SUCCESS\<close> and the
  eligibility check of the applicant is still there.
\<close>

theorem eligibility_delete_keyed_by_bonus_code:
  "hd (snd (recHandler okDelete okUpsert okDelete (Some aBonusActivationWithFamilyUID)))
     = EligibilityCheck_deleteOneById ''AAAAAAAAAAAA''
   \<and> applicantFiscalCode aBonusActivationWithFamilyUID = ''AAABBB80A01C123D''
   \<and> (\<exists>r. toEligibilityCheckFromDSU someDefinitions anEmptyResponse
              (applicantFiscalCode aBonusActivationWithFamilyUID) aDate = Returned r
          \<and> id' r = ''AAABBB80A01C123D'')
   \<and> memHandler (Some (QueryError 404 ''NotFound'')) (Some aBonusActivationWithFamilyUID) aStore
     = (Threw (Error ''transient failure''), aStore)
   \<and> fst (memHandler None (Some aBonusActivationWithFamilyUID) aStore) = Returned SUCCESS
   \<and> eligibilityChecks (snd (memHandler None (Some aBonusActivationWithFamilyUID) aStore))
     = [''AAABBB80A01C123D'']"
proof (intro conjI)
  show "hd (snd (recHandler okDelete okUpsert okDelete (Some aBonusActivationWithFamilyUID)))
     = EligibilityCheck_deleteOneById ''AAAAAAAAAAAA''"
    by (simp add: recHandler_trace step_defs okDelete_def okUpsert_def
        aBonusActivationWithFamilyUID_def)
  show "applicantFiscalCode aBonusActivationWithFamilyUID = ''AAABBB80A01C123D''"
    by (simp add: aBonusActivationWithFamilyUID_def aFiscalCode_def)
  show "\<exists>r. toEligibilityCheckFromDSU someDefinitions anEmptyResponse
              (applicantFiscalCode aBonusActivationWithFamilyUID) aDate = Returned r
          \<and> id' r = ''AAABBB80A01C123D''"
    by (simp add: toEligibilityCheckFromDSU_def componentiOf_def anEmptyResponse_def
        EligibilityCheckFailure_encode_def aBonusActivationWithFamilyUID_def aFiscalCode_def)
  show "memHandler (Some (QueryError 404 ''NotFound'')) (Some aBonusActivationWithFamilyUID) aStore
     = (Threw (Error ''transient failure''), aStore)"
    by (simp add: mem_defs aStore_def aBonusActivationWithFamilyUID_def)
  show "fst (memHandler None (Some aBonusActivationWithFamilyUID) aStore) = Returned SUCCESS"
    by (simp add: mem_defs aStore_def aBonusActivationWithFamilyUID_def aFamilyUID_def)
  show "eligibilityChecks (snd (memHandler None (Some aBonusActivationWithFamilyUID) aStore))
     = [''AAABBB80A01C123D'']"
    by (simp add: mem_defs aStore_def aBonusActivationWithFamilyUID_def aFamilyUID_def)
qed

lemma relaseLock_succeeds_iff:
  "(\<exists>u. fst (relaseLockForUserFamily bonusLeaseModel fuid s) = Inr u)
     \<longleftrightarrow> (\<exists>k. fst (bonusLeaseModel fuid s) = Resolved (Inr k))"
proof (cases "bonusLeaseModel fuid s")
  case (Pair p s')
  then show ?thesis
    by (cases p rule: fromQueryEither.cases) (simp_all add: relaseLockForUserFamily_def)
qed

text \<open>
  C3. When the lease model answers the delete with the error of a missing document, the
  release step reports \<open>UNHANDLED_FAILURE\<close>: the step maps every left and every rejection
  to that failure and does not look at the error. So it is on the store in memory that
  holds no lease, when the client reports the missing document as the error 404: the
  release is an \<open>UNHANDLED_FAILURE\<close> although the lease is merely absent.
\<close>

theorem release_of_missing_lease_is_unhandled:
  "relaseLockForUserFamily (rec_bonusLeaseModel notFoundDelete) aFamilyUID []
     = (Inl (UNHANDLED_FAILURE ''Error releasing lock: [object Object]''),
        [BonusLease_deleteOneById aFamilyUID])
   \<and> relaseLockForUserFamily (mem_bonusLeaseModel (Some (QueryError 404 ''NotFound'')))
        aFamilyUID (aStore\<lparr>bonusLeases := []\<rparr>)
     = (Inl (UNHANDLED_FAILURE ''Error releasing lock: [object Object]''),
        aStore\<lparr>bonusLeases := []\<rparr>)"
  by (simp add: relaseLockForUserFamily_def rec_bonusLeaseModel_def notFoundDelete_def
      mem_bonusLeaseModel_def mem_deleteDocument_def EligibilityCheckModel_deleteOneById_def
      aStore_def)


section \<open>Properties of the conversion from the DSU response\<close>

lemma calculateMaxBonusAmount_cases:
  "calculateMaxBonusAmountFromFamilyMemberCount g n =
     (if n \<le> 0 then Threw (Error (''FATAL: family member count is not greater than 0 [''
                                    @ toString n @ '']''))
      else if n = 1 then Returned (MaxBonusAmount150 g)
      else if n = 2 then Returned (MaxBonusAmount250 g)
      else Returned (MaxBonusAmount500 g))"
  by (simp add: calculateMaxBonusAmountFromFamilyMemberCount_def)

lemma calculateMaxBonusAmount_positive:
  assumes "0 < n"
  shows "\<exists>b. calculateMaxBonusAmountFromFamilyMemberCount g n = Returned b"
  using assms by (simp add: calculateMaxBonusAmount_cases)

lemma toEligibilityCheckFromDSU_returns:
  "\<exists>r. toEligibilityCheckFromDSU g data requester validBefore = Returned r"
proof (cases "componentiOf data = []")
  case True
  then show ?thesis by (simp add: toEligibilityCheckFromDSU_def)
next
  case False
  then have "0 < int (length (componentiOf data))" by simp
  from calculateMaxBonusAmount_positive [OF this]
  obtain b where
    "calculateMaxBonusAmountFromFamilyMemberCount g (int (length (componentiOf data))) = Returned b"
    by blast
  then show ?thesis
    using False
    by (simp add: toEligibilityCheckFromDSU_def Let_def split: option.splits)
qed

text \<open>
  C10. The maximum amount is that of \<open>MaxBonusAmount150\<close> for exactly one member, of
  \<open>MaxBonusAmount250\<close> for exactly two and of \<open>MaxBonusAmount500\<close> for more than two;
  the function throws exactly for the counts that are not greater than 0. For a response
  without family members the conversion returns the failure record
  \<open>DatiIndicatore.Componenti is empty\<close>, and the conversion never throws: the amount
  is only computed for a family of at least one member.
\<close>

theorem max_bonus_amount_by_member_count:
  "(n = 1 \<longrightarrow> calculateMaxBonusAmountFromFamilyMemberCount g n = Returned (MaxBonusAmount150 g))
   \<and> (n = 2 \<longrightarrow> calculateMaxBonusAmountFromFamilyMemberCount g n = Returned (MaxBonusAmount250 g))
   \<and> (n > 2 \<longrightarrow> calculateMaxBonusAmountFromFamilyMemberCount g n = Returned (MaxBonusAmount500 g))
   \<and> ((\<exists>e. calculateMaxBonusAmountFromFamilyMemberCount g n = Threw e) \<longleftrightarrow> n \<le> 0)
   \<and> (componentiOf data = [] \<longrightarrow>
         toEligibilityCheckFromDSU g data requester validBefore =
           Returned (EligibilityCheckFailure_encode INTERNAL_ERROR
                       ''DatiIndicatore.Componenti is empty'' requester))
   \<and> (\<exists>r. toEligibilityCheckFromDSU g data requester validBefore = Returned r)"
proof (intro conjI impI)
  show "(\<exists>e. calculateMaxBonusAmountFromFamilyMemberCount g n = Threw e) \<longleftrightarrow> n \<le> 0"
    by (simp add: calculateMaxBonusAmount_cases)
next
  assume "componentiOf data = []"
  then show "toEligibilityCheckFromDSU g data requester validBefore =
           Returned (EligibilityCheckFailure_encode INTERNAL_ERROR
                       ''DatiIndicatore.Componenti is empty'' requester)"
    by (simp add: toEligibilityCheckFromDSU_def)
next
  show "\<exists>r. toEligibilityCheckFromDSU g data requester validBefore = Returned r"
    by (rule toEligibilityCheckFromDSU_returns)
qed (simp_all add: calculateMaxBonusAmount_cases)

theorem max_bonus_amount_by_member_count_witness:
  "calculateMaxBonusAmountFromFamilyMemberCount someDefinitions 1
     = Returned \<lparr>bonus_max_amount = 150, bonus_max_tax_benefit = 30\<rparr>
   \<and> calculateMaxBonusAmountFromFamilyMemberCount someDefinitions 2
     = Returned \<lparr>bonus_max_amount = 250, bonus_max_tax_benefit = 50\<rparr>
   \<and> calculateMaxBonusAmountFromFamilyMemberCount someDefinitions 7
     = Returned \<lparr>bonus_max_amount = 500, bonus_max_tax_benefit = 100\<rparr>
   \<and> (\<exists>e. calculateMaxBonusAmountFromFamilyMemberCount someDefinitions 0 = Threw e)
   \<and> componentiOf anEmptyResponse = []
   \<and> toEligibilityCheckFromDSU someDefinitions anEmptyResponse ''AAABBB80A01C123D'' aDate
     = Returned \<lparr>id' = ''AAABBB80A01C123D'', status = FAILURE, dsu_request = None,
                 valid_before = None, error = Some INTERNAL_ERROR,
                 error_description = Some ''DatiIndicatore.Componenti is empty''\<rparr>"
proof -
  have empty: "componentiOf anEmptyResponse = []"
    by (simp add: componentiOf_def anEmptyResponse_def)
  show ?thesis
    using max_bonus_amount_by_member_count [of 1 someDefinitions anEmptyResponse]
      max_bonus_amount_by_member_count [of 2 someDefinitions anEmptyResponse]
      max_bonus_amount_by_member_count [of 7 someDefinitions anEmptyResponse]
      max_bonus_amount_by_member_count [of 0 someDefinitions anEmptyResponse
        "''AAABBB80A01C123D''" aDate]
      empty
    by (simp add: someDefinitions_def EligibilityCheckFailure_encode_def)
qed


section \<open>Properties of the validation of an eligibility check\<close>

lemma validate_not_eligible:
  assumes "decode input = Inr ec" and "status ec \<noteq> ELIGIBLE"
  shows "getValidateEligibilityCheckActivityHandler decode decodeFamilyUID findLease input = Inr ec"
  using assms by (simp add: getValidateEligibilityCheckActivityHandler_def)

lemma validate_eligible_resolved:
  assumes "decode input = Inr ec" and "status ec = ELIGIBLE"
    and "dsu_request ec = Some dsu"
    and "generateFamilyUID decodeFamilyUID (map toModelFamilyMember (family_members dsu)) = Inr uid"
    and "findLease uid uid = Resolved (Inr lease)"
  shows "getValidateEligibilityCheckActivityHandler decode decodeFamilyUID findLease input =
           Inr (if lease = None then ec else ec\<lparr>status := CONFLICT\<rparr>)"
  using assms
  by (cases lease) (simp_all add: getValidateEligibilityCheckActivityHandler_def)

lemma validate_returned_cases:
  assumes "decode input = Inr ec"
    and "getValidateEligibilityCheckActivityHandler decode decodeFamilyUID findLease input = Inr out"
  shows "out = ec \<or> (status ec = ELIGIBLE \<and> out = ec\<lparr>status := CONFLICT\<rparr>)"
proof (cases "status ec = ELIGIBLE")
  case False
  with assms show ?thesis
    by (simp add: getValidateEligibilityCheckActivityHandler_def)
next
  case True
  show ?thesis
  proof (cases "dsu_request ec")
    case None
    with assms True show ?thesis
      by (simp add: getValidateEligibilityCheckActivityHandler_def)
  next
    case (Some dsu)
    show ?thesis
    proof (cases "generateFamilyUID decodeFamilyUID (map toModelFamilyMember (family_members dsu))")
      case (Inl e)
      with assms True Some show ?thesis
        by (simp add: getValidateEligibilityCheckActivityHandler_def)
    next
      case (Inr uid)
      show ?thesis
      proof (cases "findLease uid uid")
        case (Rejected x)
        with assms True Some Inr show ?thesis
          by (simp add: getValidateEligibilityCheckActivityHandler_def)
      next
        case (Resolved r)
        show ?thesis
        proof (cases r)
          case (Inl q)
          with assms True Some Inr Resolved show ?thesis
            by (simp add: getValidateEligibilityCheckActivityHandler_def)
        next
          case (Inr lease)
          with assms True Some \<open>generateFamilyUID decodeFamilyUID
              (map toModelFamilyMember (family_members dsu)) = Inr uid\<close> Resolved
          have "getValidateEligibilityCheckActivityHandler decode decodeFamilyUID findLease input =
                  Inr (if lease = None then ec else ec\<lparr>status := CONFLICT\<rparr>)"
            by (intro validate_eligible_resolved [where dsu = dsu and uid = uid]) simp_all
          with assms(2) True show ?thesis
            by (cases "lease = None") simp_all
        qed
      qed
    qed
  qed
qed

lemma conflict_differs:
  assumes "status ec = ELIGIBLE"
  shows "ec\<lparr>status := CONFLICT\<rparr> \<noteq> ec"
proof
  assume "ec\<lparr>status := CONFLICT\<rparr> = ec"
  then have "status (ec\<lparr>status := CONFLICT\<rparr>) = status ec" by simp
  with assms show False by simp
qed

text \<open>
  C9. For an input that decodes to the eligibility check \<open>ec\<close>: when the status of
  \<open>ec\<close> is not ELIGIBLE the activity returns \<open>ec\<close> unchanged. When it is ELIGIBLE and
  the query of the lease of the family UID generated from the family members of \<open>ec\<close>
  resolves, the activity returns \<open>ec\<close> with the status CONFLICT and every other field
  unchanged when there is a lease, and \<open>ec\<close> itself when there is none; the output is
  the input exactly when there is no lease. Whatever the activity returns is \<open>ec\<close> or
  \<open>ec\<close> with the status CONFLICT.
\<close>

theorem validate_changes_only_status:
  assumes "decode input = Inr ec"
  shows
    "(status ec \<noteq> ELIGIBLE \<longrightarrow>
        getValidateEligibilityCheckActivityHandler decode decodeFamilyUID findLease input = Inr ec)
     \<and> (status ec = ELIGIBLE \<and> dsu_request ec = Some dsu
          \<and> generateFamilyUID decodeFamilyUID (map toModelFamilyMember (family_members dsu))
                = Inr uid
          \<and> findLease uid uid = Resolved (Inr lease) \<longrightarrow>
          (\<exists>out. getValidateEligibilityCheckActivityHandler decode decodeFamilyUID findLease input
                    = Inr out
             \<and> (lease \<noteq> None \<longrightarrow> out = ec\<lparr>status := CONFLICT\<rparr>)
             \<and> (lease = None \<longrightarrow> out = ec)
             \<and> (out = ec \<longleftrightarrow> lease = None)
             \<and> id' out = id' ec \<and> dsu_request out = dsu_request ec
             \<and> valid_before out = valid_before ec \<and> error out = error ec
             \<and> error_description out = error_description ec))
     \<and> (\<forall>out. getValidateEligibilityCheckActivityHandler decode decodeFamilyUID findLease input
                  = Inr out \<longrightarrow>
            out = ec \<or> out = ec\<lparr>status := CONFLICT\<rparr>)"
proof (intro conjI impI allI)
  assume "status ec \<noteq> ELIGIBLE"
  with assms show
    "getValidateEligibilityCheckActivityHandler decode decodeFamilyUID findLease input = Inr ec"
    by (rule validate_not_eligible)
next
  assume h: "status ec = ELIGIBLE \<and> dsu_request ec = Some dsu
          \<and> generateFamilyUID decodeFamilyUID (map toModelFamilyMember (family_members dsu))
                = Inr uid
          \<and> findLease uid uid = Resolved (Inr lease)"
  then have r: "getValidateEligibilityCheckActivityHandler decode decodeFamilyUID findLease input =
           Inr (if lease = None then ec else ec\<lparr>status := CONFLICT\<rparr>)"
    using assms validate_eligible_resolved
        [where decode = decode and input = input and ec = ec and dsu = dsu and uid = uid
           and lease = lease and findLease = findLease and decodeFamilyUID = decodeFamilyUID]
    by simp
  from h have ne: "ec\<lparr>status := CONFLICT\<rparr> \<noteq> ec"
    by (intro conflict_differs) simp
  show "\<exists>out. getValidateEligibilityCheckActivityHandler decode decodeFamilyUID findLease input
                    = Inr out
             \<and> (lease \<noteq> None \<longrightarrow> out = ec\<lparr>status := CONFLICT\<rparr>)
             \<and> (lease = None \<longrightarrow> out = ec)
             \<and> (out = ec \<longleftrightarrow> lease = None)
             \<and> id' out = id' ec \<and> dsu_request out = dsu_request ec
             \<and> valid_before out = valid_before ec \<and> error out = error ec
             \<and> error_description out = error_description ec"
    unfolding r using ne by (cases "lease = None") simp_all
next
  fix out
  assume "getValidateEligibilityCheckActivityHandler decode decodeFamilyUID findLease input
            = Inr out"
  with assms have "out = ec \<or> (status ec = ELIGIBLE \<and> out = ec\<lparr>status := CONFLICT\<rparr>)"
    by (rule validate_returned_cases)
  then show "out = ec \<or> out = ec\<lparr>status := CONFLICT\<rparr>"
    by (elim disjE conjE) (rule disjI1, assumption, rule disjI2, assumption)
qed

theorem validate_changes_only_status_witness:
  "getValidateEligibilityCheckActivityHandler Inr Inr
       (findIn [toHash (familySeed (map toModelFamilyMember (family_members anApiDsu)))])
       anEligibleCheck
     = Inr (anEligibleCheck\<lparr>status := CONFLICT\<rparr>)
   \<and> getValidateEligibilityCheckActivityHandler Inr Inr (findIn []) anEligibleCheck
     = Inr anEligibleCheck
   \<and> getValidateEligibilityCheckActivityHandler Inr Inr (findIn [])
       (EligibilityCheckSuccessIneligible_encode ''AAABBB80A01C123D'')
     = Inr (EligibilityCheckSuccessIneligible_encode ''AAABBB80A01C123D'')"
proof (intro conjI)
  let ?uid = "toHash (familySeed (map toModelFamilyMember (family_members anApiDsu)))"
  let ?H = "getValidateEligibilityCheckActivityHandler Inr Inr"
  have g: "generateFamilyUID Inr (map toModelFamilyMember (family_members anApiDsu)) = Inr ?uid"
    by (simp add: generateFamilyUID_def)
  have e: "status anEligibleCheck = ELIGIBLE" "dsu_request anEligibleCheck = Some anApiDsu"
    by (simp_all add: anEligibleCheck_def EligibilityCheckSuccessEligible_encode_def)
  have f1: "findIn [?uid] ?uid ?uid = Resolved (Inr (Some ?uid))"
    by (simp add: findIn_def)
  have f2: "findIn [] ?uid ?uid = Resolved (Inr None)"
    by (simp add: findIn_def)
  have "\<exists>out. ?H (findIn [?uid]) anEligibleCheck = Inr out
          \<and> (Some ?uid \<noteq> None \<longrightarrow> out = anEligibleCheck\<lparr>status := CONFLICT\<rparr>)"
    using validate_changes_only_status
        [where decode = Inr and input = anEligibleCheck and ec = anEligibleCheck
           and dsu = anApiDsu and decodeFamilyUID = Inr and uid = ?uid
           and findLease = "findIn [?uid]" and lease = "Some ?uid"] g e f1
    by blast
  then show "?H (findIn [?uid]) anEligibleCheck = Inr (anEligibleCheck\<lparr>status := CONFLICT\<rparr>)"
    by auto
  have "\<exists>out. ?H (findIn []) anEligibleCheck = Inr out
          \<and> ((None :: string option) = None \<longrightarrow> out = anEligibleCheck)"
    using validate_changes_only_status
        [where decode = Inr and input = anEligibleCheck and ec = anEligibleCheck
           and dsu = anApiDsu and decodeFamilyUID = Inr and uid = ?uid
           and findLease = "findIn []" and lease = None] g e f2
    by blast
  then show "?H (findIn []) anEligibleCheck = Inr anEligibleCheck"
    by auto
  have i: "status (EligibilityCheckSuccessIneligible_encode ''AAABBB80A01C123D'') \<noteq> ELIGIBLE"
    by (simp add: EligibilityCheckSuccessIneligible_encode_def)
  show "?H (findIn []) (EligibilityCheckSuccessIneligible_encode ''AAABBB80A01C123D'')
          = Inr (EligibilityCheckSuccessIneligible_encode ''AAABBB80A01C123D'')"
    using validate_changes_only_status
        [where decode = Inr
           and input = "EligibilityCheckSuccessIneligible_encode ''AAABBB80A01C123D''"
           and ec = "EligibilityCheckSuccessIneligible_encode ''AAABBB80A01C123D''"
           and decodeFamilyUID = Inr and findLease = "findIn []"] i
    by blast
qed


section \<open>The arithmetic of the hash\<close>

lemma bit_mod_double:
  fixes m k r :: nat
  assumes "r < 2"
  shows "(r + 2 * m) mod (2 * k) = r + 2 * (m mod k)"
proof -
  have "(r + 2 * m) mod (2 * k) = 2 * ((r + 2 * m) div 2 mod k) + (r + 2 * m) mod 2"
    by (simp only: mod_mult2_eq)
  moreover have "(r + 2 * m) div 2 = m" using assms by simp
  moreover have "(r + 2 * m) mod 2 = r" using assms by simp
  ultimately show ?thesis by simp
qed

lemma full_adder:
  "(if (x \<noteq> y) \<noteq> c then 1 else 0) + 2 * (if (x \<and> y) \<or> (c \<and> (x \<noteq> y)) then 1 else 0)
     = (if c then 1 else 0) + (if x then 1 else 0) + (if y then (1::nat) else 0)"
  by (cases x; cases y; cases c) simp_all

lemma addc_value:
  assumes "length a = length b"
  shows "bits_val (addc c a b) = ((if c then 1 else 0) + bits_val a + bits_val b) mod 2 ^ length a"
  using assms
proof (induction a b arbitrary: c rule: list_induct2)
  case Nil
  then show ?case by simp
next
  case (Cons x xs y ys)
  let ?s = "if (x \<noteq> y) \<noteq> c then 1 else 0 :: nat"
  let ?k = "if (x \<and> y) \<or> (c \<and> (x \<noteq> y)) then 1 else 0 :: nat"
  have s: "?s < 2" by simp
  have "bits_val (addc c (x # xs) (y # ys))
      = ?s + 2 * ((?k + bits_val xs + bits_val ys) mod 2 ^ length xs)"
    by (simp add: Cons.IH)
  also have "\<dots> = (?s + 2 * (?k + bits_val xs + bits_val ys)) mod (2 * 2 ^ length xs)"
    by (rule bit_mod_double [OF s, symmetric])
  also have "?s + 2 * (?k + bits_val xs + bits_val ys)
      = (?s + 2 * ?k) + 2 * bits_val xs + 2 * bits_val ys"
    by (simp add: algebra_simps)
  also have "?s + 2 * ?k = (if c then 1 else 0) + (if x then 1 else 0) + (if y then (1::nat) else 0)"
    by (rule full_adder)
  finally show ?case by (simp add: algebra_simps)
qed

text \<open>The adder is the addition of 32-bit words: the sum modulo \<open>2 ^ 32\<close>.\<close>

lemma add32_value:
  assumes "length a = 32" and "length b = 32"
  shows "bits_val (add32 a b) = (bits_val a + bits_val b) mod 2 ^ 32"
  using addc_value [of a b False] assms by (simp add: add32_def)

lemma bits_of_value:
  assumes "0 \<le> k"
  shows "bits_val (bits_of n k) = nat k mod 2 ^ n"
  using assms
proof (induction n arbitrary: k)
  case 0
  then show ?case by simp
next
  case (Suc n)
  from Suc.prems have d: "0 \<le> k div 2" by simp
  let ?r = "if k mod 2 = 1 then 1 else 0 :: nat"
  have r: "?r < 2" by simp
  have "k = int ?r + 2 * (k div 2)"
  proof (cases "k mod 2 = 1")
    case True
    then have "k = 1 + 2 * (k div 2)" by presburger
    with True show ?thesis by simp
  next
    case False
    then have "k = 2 * (k div 2)" by presburger
    with False show ?thesis by simp
  qed
  then have "nat k = nat (int ?r + 2 * (k div 2))" by simp
  also have "\<dots> = ?r + 2 * nat (k div 2)"
    using d by (simp add: nat_add_distrib nat_mult_distrib)
  finally have k: "nat k = ?r + 2 * nat (k div 2)" .
  have "bits_val (bits_of (Suc n) k) = ?r + 2 * (nat (k div 2) mod 2 ^ n)"
    by (simp add: Suc.IH [OF d])
  also have "\<dots> = (?r + 2 * nat (k div 2)) mod (2 * 2 ^ n)"
    by (rule bit_mod_double [OF r, symmetric])
  finally show ?case using k by simp
qed


section \<open>Properties of the family UID and of the serialized bonus\<close>

lemma join_empty_separator: "join [] xs = concat xs"
  by (induction "[] :: string" xs rule: join.induct) simp_all

lemma sortFiscalCodes_mset:
  assumes "mset cs = mset cs'"
  shows "sortFiscalCodes cs = sortFiscalCodes cs'"
proof -
  have "mset (sort cs') = mset cs" using assms by simp
  moreover have "sorted (sort cs')" by simp
  ultimately have "sort cs = sort cs'" by (rule properties_for_sort)
  then show ?thesis by (simp add: sortFiscalCodes_def)
qed

text \<open>
  The digests of the test vectors of SHA-256: the empty message, the message \<open>abc\<close>,
  and a message of 56 bytes, which takes two blocks.
\<close>

lemma toHash_empty:
  "toHash [] = ''e3b0c44298fc1c149afbf4c8996fb92427ae41e4649b934ca495991b7852b855''"
  by code_simp

lemma toHash_abc:
  "toHash ''abc'' = ''ba7816bf8f01cfea414140de5dae2223b00361a396177a9cb410ff61f20015ad''"
  by code_simp

lemma toHash_two_blocks:
  "toHash ''abcdbcdecdefdefgefghfghighijhijkijkljklmklmnlmnomnopnopq''
     = ''248d6a61d20638b8e5c026930c3e6039a33ce45964ff2167f6ecedd419db06c1''"
  by code_simp

lemma toHash_one_member:
  "toHash ''AAABBB80A01C123D''
     = ''7e5fbf7a4b78cec60889b663f5d88ff822edff10eab956665ae7599496fb7943''"
  by code_simp

lemma toHash_repeated_member:
  "toHash ''AAABBB80A01C123DAAABBB80A01C123D''
     = ''c7a7abafec4496ec07c41e61ad33e64c28d876dcbd8c42f9a881621b2975c58d''"
  by code_simp

text \<open>
  C4, as stated, fails: the roster with one member and the roster that lists the same
  member twice have the same set of fiscal codes, and their family UIDs differ, because
  the fiscal codes are sorted and joined without removing duplicates.
\<close>

theorem family_uid_keeps_duplicates:
  "set (map fiscalCode [aFamilyMember]) = set (map fiscalCode [aFamilyMember, aFamilyMember])
   \<and> generateFamilyUID Inr [aFamilyMember]
       = Inr ''7e5fbf7a4b78cec60889b663f5d88ff822edff10eab956665ae7599496fb7943''
   \<and> generateFamilyUID Inr [aFamilyMember, aFamilyMember]
       = Inr ''c7a7abafec4496ec07c41e61ad33e64c28d876dcbd8c42f9a881621b2975c58d''
   \<and> generateFamilyUID Inr [aFamilyMember] \<noteq> generateFamilyUID Inr [aFamilyMember, aFamilyMember]"
proof -
  have s1: "familySeed [aFamilyMember] = ''AAABBB80A01C123D''"
    by (simp add: familySeed_def sortFiscalCodes_def aFamilyMember_def)
  have s2: "familySeed [aFamilyMember, aFamilyMember] = ''AAABBB80A01C123DAAABBB80A01C123D''"
    by (simp add: familySeed_def sortFiscalCodes_def aFamilyMember_def)
  show ?thesis
    by (simp add: generateFamilyUID_def s1 s2 toHash_one_member toHash_repeated_member)
qed

lemma familySeed_length:
  "length (familySeed ms) = sum_list (map (\<lambda>m. length (fiscalCode m)) ms)"
proof -
  have "sum_list (map length (sort (map fiscalCode ms)))
      = sum_mset (image_mset length (mset (sort (map fiscalCode ms))))"
    by (simp only: sum_mset_sum_list [symmetric] mset_map)
  also have "\<dots> = sum_mset (image_mset length (mset (map fiscalCode ms)))"
    by simp
  also have "\<dots> = sum_list (map length (map fiscalCode ms))"
    by (simp only: sum_mset_sum_list [symmetric] mset_map)
  finally show ?thesis
    by (simp add: familySeed_def sortFiscalCodes_def join_empty_separator length_concat comp_def)
qed

text \<open>
  C4, amended. The family UID is a function of the fiscal codes of the family members
  counted with their multiplicity, whatever their order: two rosters with the same
  multiset of fiscal codes have the same seed and the same hash, and \<open>generateFamilyUID\<close>
  gives a family UID for one exactly when it gives the same family UID for the other.
  Duplicates are kept: the seed that is hashed is the concatenation of the sorted list
  of all the fiscal codes of the roster, a rearrangement of that list, so that every
  entry of the roster, repeated or not, adds its length to the seed; and the family UID
  is what the codec makes of the hash of that seed.
\<close>

theorem family_uid_of_multiset:
  assumes "mset (map fiscalCode ms) = mset (map fiscalCode ms')"
  shows "familySeed ms = familySeed ms'
    \<and> toHash (familySeed ms) = toHash (familySeed ms')
    \<and> (generateFamilyUID d ms = Inr u \<longleftrightarrow> generateFamilyUID d ms' = Inr u)
    \<and> familySeed ms = concat (sortFiscalCodes (map fiscalCode ms))
    \<and> mset (sortFiscalCodes (map fiscalCode ms)) = mset (map fiscalCode ms)
    \<and> length (familySeed ms) = sum_list (map (\<lambda>m. length (fiscalCode m)) ms)
    \<and> (generateFamilyUID d ms = Inr u \<longleftrightarrow> d (toHash (familySeed ms)) = Inr u)"
proof -
  have seed: "familySeed ms = familySeed ms'"
    using sortFiscalCodes_mset [OF assms] by (simp add: familySeed_def)
  have "generateFamilyUID d ms = Inr u \<longleftrightarrow> d (toHash (familySeed ms)) = Inr u"
    by (simp add: generateFamilyUID_def split: sum.splits)
  moreover have "generateFamilyUID d ms = Inr u \<longleftrightarrow> generateFamilyUID d ms' = Inr u"
    using seed by (simp add: generateFamilyUID_def split: sum.splits)
  moreover have "familySeed ms = concat (sortFiscalCodes (map fiscalCode ms))"
    by (simp add: familySeed_def join_empty_separator)
  moreover have "mset (sortFiscalCodes (map fiscalCode ms)) = mset (map fiscalCode ms)"
    by (simp add: sortFiscalCodes_def)
  moreover note familySeed_length [of ms]
  ultimately show ?thesis using seed by simp
qed

theorem family_uid_of_multiset_witness:
  "mset (map fiscalCode [aFamilyMember, anotherFamilyMember])
     = mset (map fiscalCode [anotherFamilyMember, aFamilyMember])
   \<and> familySeed [aFamilyMember, anotherFamilyMember] = ''AAABBB80A01C123DCCCDDD80A01C123D''
   \<and> familySeed [anotherFamilyMember, aFamilyMember] = ''AAABBB80A01C123DCCCDDD80A01C123D''
   \<and> generateFamilyUID Inr [anotherFamilyMember, aFamilyMember]
       = generateFamilyUID Inr [aFamilyMember, anotherFamilyMember]
   \<and> length (familySeed [aFamilyMember, anotherFamilyMember]) = 32"
proof -
  have m: "mset (map fiscalCode [aFamilyMember, anotherFamilyMember])
     = mset (map fiscalCode [anotherFamilyMember, aFamilyMember])"
    by simp
  have s: "familySeed [aFamilyMember, anotherFamilyMember] = ''AAABBB80A01C123DCCCDDD80A01C123D''"
    by code_simp
  from family_uid_of_multiset [OF m, of Inr]
  show ?thesis using m s
    by (simp add: generateFamilyUID_def aFamilyMember_def anotherFamilyMember_def)
qed

text \<open>
  C8. \<open>serializeBonus\<close> is the concatenation, without separator and in this order, of
  the fiscal code of the applicant, the bonus code, the maximum amount as a string, the
  generation date as an ISO-8601 string, the discrepancy flag as a string, and the fiscal
  codes of the family members, sorted; the tail is a sorted rearrangement of the fiscal
  codes of the family.
\<close>

theorem serializeBonus_is_ordered_concatenation:
  "serializeBonus bv =
     codiceFiscaleDichiarante bv @ codiceBuono bv @ toString (importoMassimo bv)
       @ toISOString (dataGenerazione bv) @ toString (flagDifformita bv)
       @ concat (sortFiscalCodes (map codiceFiscale (nucleoFamiliare bv)))
   \<and> sorted (sortFiscalCodes (map codiceFiscale (nucleoFamiliare bv)))
   \<and> mset (sortFiscalCodes (map codiceFiscale (nucleoFamiliare bv)))
       = mset (map codiceFiscale (nucleoFamiliare bv))"
  by (simp add: serializeBonus_def join_empty_separator sortFiscalCodes_def)

lemma serializeBonus_example:
  "serializeBonus aBonusVacanza =
     ''AAABBB80A01C123DAAAAAAAAAAAA2002020-07-15T10:30:00.000Z0AAABBB80A01C123DCCCDDD80A01C123D''"
  by code_simp


section \<open>Properties of the orchestrator\<close>

lemma handler_trace:
  assumes "decode input = Some v"
  shows "handler decode isSendFailure host input =
     (case host [] (sendTask v) of
        Faulted e \<Rightarrow> ([sendTask v], Failed e)
      | Completed r \<Rightarrow>
          (case host [sendTask v] (branchTask (isSendFailure r) v) of
             Faulted e \<Rightarrow> ([sendTask v, branchTask (isSendFailure r) v], Failed e)
           | Completed _ \<Rightarrow>
               (case host [sendTask v, branchTask (isSendFailure r) v]
                       (unlockTask (input_familyUID v)) of
                  Faulted e \<Rightarrow>
                    ([sendTask v, branchTask (isSendFailure r) v,
                      unlockTask (input_familyUID v)], Failed e)
                | Completed _ \<Rightarrow>
                    ([sendTask v, branchTask (isSendFailure r) v,
                      unlockTask (input_familyUID v)], Finished True))))"
  using assms
  by (simp add: handler_def sendTask_def branchTask_def unlockTask_def Let_def
      split: task_result.splits)

lemma unlocks_simps:
  "unlocks fuid [sendTask v] = 0"
  "unlocks fuid [sendTask v, branchTask f v] = 0"
  "unlocks fuid [sendTask v, branchTask f v, unlockTask fuid] = 1"
  by (simp_all add: unlocks_def sendTask_def branchTask_def unlockTask_def)

lemma handler_finished_true:
  assumes "decode input = Some v"
    and "snd (handler decode isSendFailure host input) = Finished True"
  shows "\<exists>r. handler decode isSendFailure host input =
           ([sendTask v, branchTask (isSendFailure r) v, unlockTask (input_familyUID v)],
            Finished True)"
proof -
  note tr = handler_trace [where decode = decode and input = input and v = v
      and isSendFailure = isSendFailure and host = host, OF assms(1)]
  show ?thesis
  proof (cases "host [] (sendTask v)")
    case (Faulted e)
    with assms(2) show ?thesis unfolding tr by simp
  next
    case (Completed r)
    note c1 = this
    show ?thesis
    proof (cases "host [sendTask v] (branchTask (isSendFailure r) v)")
      case (Faulted e)
      with assms(2) c1 show ?thesis unfolding tr by simp
    next
      case (Completed r2)
      note c2 = this
      show ?thesis
      proof (cases "host [sendTask v, branchTask (isSendFailure r) v]
                      (unlockTask (input_familyUID v))")
        case (Faulted e)
        with assms(2) c1 c2 show ?thesis unfolding tr by simp
      next
        case (Completed r3)
        with c1 c2 have "handler decode isSendFailure host input =
           ([sendTask v, branchTask (isSendFailure r) v, unlockTask (input_familyUID v)],
            Finished True)"
          unfolding tr by simp
        then show ?thesis by (rule exI)
      qed
    qed
  qed
qed

text \<open>
  C2, as stated, fails: when \<open>SendBonusActivationActivity\<close> fails after its retries,
  the failure is thrown into the generator, which has no handler for it: the
  orchestration ends with that failure, the only task it yielded is the send, and the
  activity that releases the lease was never called.
\<close>

theorem no_unlock_when_send_fails:
  "handler Some (\<lambda>r. r) sendFailingHost anOrchestratorInput
     = ([CallActivityWithRetry ''SendBonusActivationActivity'' sendRetryOptions
           (InputValue anOrchestratorInput)],
        Failed (Error ''transient failure''))
   \<and> unlocks (input_familyUID anOrchestratorInput)
        (fst (handler Some (\<lambda>r. r) sendFailingHost anOrchestratorInput)) = 0"
proof -
  have f: "sendFailingHost [] (sendTask anOrchestratorInput) = Faulted (Error ''transient failure'')"
    by (simp add: sendFailingHost_def sendTask_def)
  have d: "Some anOrchestratorInput = Some anOrchestratorInput" by simp
  have run: "handler Some (\<lambda>r. r) sendFailingHost anOrchestratorInput
      = ([sendTask anOrchestratorInput], Failed (Error ''transient failure''))"
    using handler_trace [where decode = Some and input = anOrchestratorInput
        and v = anOrchestratorInput and host = sendFailingHost and isSendFailure = "\<lambda>r. r"]
    by (simp add: f)
  show ?thesis
    by (simp add: run unlocks_simps) (simp add: sendTask_def)
qed

text \<open>
  C2, amended. For an input that decodes: the orchestration yields the activity that
  releases the lease of the family at most once; when every activity it calls completes,
  whichever branch was taken, it yields that activity exactly once, as its last task,
  after the send and the branch activity, and returns \<open>true\<close>; it returns \<open>true\<close> only
  after having yielded it; and when the send or the branch activity fails it ends with
  that failure without having yielded it.
\<close>

theorem unlock_once_when_activities_complete:
  assumes "decode input = Some v"
  shows
    "unlocks (input_familyUID v) (fst (handler decode isSendFailure host input)) \<le> 1
     \<and> ((\<forall>h t. \<exists>r. host h t = Completed r) \<longrightarrow>
          (\<exists>r. host [] (sendTask v) = Completed r
             \<and> handler decode isSendFailure host input =
                 ([sendTask v, branchTask (isSendFailure r) v, unlockTask (input_familyUID v)],
                  Finished True))
          \<and> unlocks (input_familyUID v) (fst (handler decode isSendFailure host input)) = 1)
     \<and> (snd (handler decode isSendFailure host input) = Finished True \<longrightarrow>
          unlocks (input_familyUID v) (fst (handler decode isSendFailure host input)) = 1
          \<and> last (fst (handler decode isSendFailure host input)) = unlockTask (input_familyUID v))
     \<and> ((\<exists>e. host [] (sendTask v) = Faulted e) \<longrightarrow>
          unlocks (input_familyUID v) (fst (handler decode isSendFailure host input)) = 0
          \<and> (\<exists>e. snd (handler decode isSendFailure host input) = Failed e))
     \<and> ((\<exists>r e. host [] (sendTask v) = Completed r
              \<and> host [sendTask v] (branchTask (isSendFailure r) v) = Faulted e) \<longrightarrow>
          unlocks (input_familyUID v) (fst (handler decode isSendFailure host input)) = 0
          \<and> (\<exists>e. snd (handler decode isSendFailure host input) = Failed e))"
proof -
  note tr = handler_trace [where decode = decode and input = input and v = v
      and isSendFailure = isSendFailure and host = host, OF assms]
  show ?thesis
  proof (intro conjI impI)
  show "unlocks (input_familyUID v) (fst (handler decode isSendFailure host input)) \<le> 1"
    unfolding tr
    by (simp add: unlocks_simps split: task_result.splits)
next
  assume all: "\<forall>h t. \<exists>r. host h t = Completed r"
  then obtain r where r: "host [] (sendTask v) = Completed r" by blast
  from all obtain r2 where r2: "host [sendTask v] (branchTask (isSendFailure r) v) = Completed r2"
    by blast
  from all obtain r3 where r3:
    "host [sendTask v, branchTask (isSendFailure r) v] (unlockTask (input_familyUID v))
       = Completed r3"
    by blast
  have run: "handler decode isSendFailure host input =
      ([sendTask v, branchTask (isSendFailure r) v, unlockTask (input_familyUID v)],
       Finished True)"
    unfolding tr by (simp add: r r2 r3)
  with r show "\<exists>r. host [] (sendTask v) = Completed r
             \<and> handler decode isSendFailure host input =
                 ([sendTask v, branchTask (isSendFailure r) v, unlockTask (input_familyUID v)],
                  Finished True)"
    by blast
  show "unlocks (input_familyUID v) (fst (handler decode isSendFailure host input)) = 1"
    by (simp add: run unlocks_simps)
next
  assume "snd (handler decode isSendFailure host input) = Finished True"
  with assms obtain r where "handler decode isSendFailure host input =
           ([sendTask v, branchTask (isSendFailure r) v, unlockTask (input_familyUID v)],
            Finished True)"
    using handler_finished_true [where decode = decode and input = input and v = v
        and isSendFailure = isSendFailure and host = host]
    by blast
  then show "unlocks (input_familyUID v) (fst (handler decode isSendFailure host input)) = 1"
    by (simp add: unlocks_simps)
next
  assume "snd (handler decode isSendFailure host input) = Finished True"
  with assms obtain r where "handler decode isSendFailure host input =
           ([sendTask v, branchTask (isSendFailure r) v, unlockTask (input_familyUID v)],
            Finished True)"
    using handler_finished_true [where decode = decode and input = input and v = v
        and isSendFailure = isSendFailure and host = host]
    by blast
  then show "last (fst (handler decode isSendFailure host input)) = unlockTask (input_familyUID v)"
    by simp
next
  assume "\<exists>e. host [] (sendTask v) = Faulted e"
  then obtain e where e: "host [] (sendTask v) = Faulted e" by blast
  show "unlocks (input_familyUID v) (fst (handler decode isSendFailure host input)) = 0"
    unfolding tr by (simp add: e unlocks_simps)
  show "\<exists>e. snd (handler decode isSendFailure host input) = Failed e"
    unfolding tr by (simp add: e)
next
  assume "\<exists>r e. host [] (sendTask v) = Completed r
              \<and> host [sendTask v] (branchTask (isSendFailure r) v) = Faulted e"
  then obtain r e where r: "host [] (sendTask v) = Completed r"
    and e: "host [sendTask v] (branchTask (isSendFailure r) v) = Faulted e"
    by blast
  show "unlocks (input_familyUID v) (fst (handler decode isSendFailure host input)) = 0"
    unfolding tr by (simp add: r e unlocks_simps)
  show "\<exists>e. snd (handler decode isSendFailure host input) = Failed e"
    unfolding tr by (simp add: r e)
  qed
qed

theorem unlock_once_when_activities_complete_witness:
  "handler Some (\<lambda>r. r) (completingHost True) anOrchestratorInput
     = ([sendTask anOrchestratorInput,
         CallActivity ''FailedBonusActivationActivity'' (InputValue anOrchestratorInput),
         unlockTask ''aFamilyUid''], Finished True)
   \<and> handler Some (\<lambda>r. r) (completingHost False) anOrchestratorInput
     = ([sendTask anOrchestratorInput,
         CallActivity ''SuccessBonusActivationActivity'' (InputValue anOrchestratorInput),
         unlockTask ''aFamilyUid''], Finished True)
   \<and> unlocks ''aFamilyUid'' (fst (handler Some (\<lambda>r. r) (completingHost True) anOrchestratorInput)) = 1
   \<and> unlocks ''aFamilyUid'' (fst (handler Some (\<lambda>r. r) (completingHost False) anOrchestratorInput)) = 1
   \<and> unlocks ''aFamilyUid'' (fst (handler Some (\<lambda>r. r) sendFailingHost anOrchestratorInput)) = 0"
proof -
  have d: "Some anOrchestratorInput = Some anOrchestratorInput" by simp
  have u: "input_familyUID anOrchestratorInput = ''aFamilyUid''"
    by (simp add: anOrchestratorInput_def)
  have c: "\<forall>h t. \<exists>r. completingHost b h t = Completed r" for b :: bool
    by (simp add: completingHost_def)
  have f: "\<exists>e. sendFailingHost [] (sendTask anOrchestratorInput) = Faulted e"
    by (simp add: sendFailingHost_def sendTask_def)
  have t: "\<exists>r. completingHost b [] (sendTask anOrchestratorInput) = Completed r
             \<and> handler Some (\<lambda>r. r) (completingHost b) anOrchestratorInput =
                 ([sendTask anOrchestratorInput, branchTask r anOrchestratorInput,
                   unlockTask ''aFamilyUid''], Finished True)"
    and n: "unlocks ''aFamilyUid''
              (fst (handler Some (\<lambda>r. r) (completingHost b) anOrchestratorInput)) = 1"
    for b :: bool
    using unlock_once_when_activities_complete [where decode = Some
        and input = anOrchestratorInput and v = anOrchestratorInput
        and isSendFailure = "\<lambda>r. r" and host = "completingHost b", OF d] c [of b]
    unfolding u by blast+
  have r: "handler Some (\<lambda>r. r) (completingHost b) anOrchestratorInput =
             ([sendTask anOrchestratorInput, branchTask b anOrchestratorInput,
               unlockTask ''aFamilyUid''], Finished True)" for b :: bool
    using t [of b] by (auto simp add: completingHost_def)
  have z: "unlocks ''aFamilyUid''
             (fst (handler Some (\<lambda>r. r) sendFailingHost anOrchestratorInput)) = 0"
    using unlock_once_when_activities_complete [where decode = Some
        and input = anOrchestratorInput and v = anOrchestratorInput
        and isSendFailure = "\<lambda>r. r" and host = sendFailingHost, OF d] f
    unfolding u by blast
  show ?thesis
    using r [of True] r [of False] n [of True] n [of False] z
    by (simp add: branchTask_def)
qed


section \<open>The compensation handler and its retry\<close>





section \<open>Properties of the classification of the response of the grant API\<close>

lemma hasErrorCode_unique:
  assumes "hasErrorCode b c v" and "hasErrorCode b c' v"
  shows "c = c'"
  using assms by (simp add: hasErrorCode_def)

lemma transient_iff:
  "BonusVacanzaTransientError b v \<longleftrightarrow>
     b v \<and> (property ''errorCode'' v = Some (JString ''4000'')
            \<or> property ''errorCode'' v = Some (JString ''3000''))"
  by (auto simp add: BonusVacanzaTransientError_def BonusVacanzaGenericError_def
      BonusVacanzaApplicationGenericError_def hasErrorCode_def)

lemma invalid_request_iff:
  "BonusVacanzaInvalidRequestError b v \<longleftrightarrow>
     b v \<and> (property ''errorCode'' v = Some (JString ''1000'')
            \<or> property ''errorCode'' v = Some (JString ''1005'')
            \<or> property ''errorCode'' v = Some (JString ''900'')
            \<or> property ''errorCode'' v = Some (JString ''907'')
            \<or> property ''errorCode'' v = Some (JString ''908''))"
  by (auto simp add: BonusVacanzaInvalidRequestError_def
      BonusVacanzaCodeAlreadyPresentError_def
      BonusVacanzaRequestedByOtherFamilyMemberError_def BonusVacanzaEmptyFamilyError_def
      BonusVacanzaNoFiscalCodeProvidedProvidedError_def
      BonusVacanzaNoGenerationDateProvidedProvidedError_def hasErrorCode_def)

lemma transient_not_invalid:
  assumes "BonusVacanzaTransientError b v"
  shows "\<not> BonusVacanzaInvalidRequestError b v"
  using assms unfolding transient_iff invalid_request_iff by auto

text \<open>
  C5. For a response that is not a confirmed grant: a payload of a transient shape (an
  error object whose code is 4000 or 3000) makes the activity raise the response as a
  fault; a payload of a validation-error shape (an error object whose code is 1000, 1005,
  900, 907 or 908) gives the failure \<open>InvalidRequest\<close> with the payload as its reason;
  a payload of neither shape gives the failure \<open>Unhandled\<close> whose reason is the
  response serialized as a string. No payload has both shapes.
\<close>

theorem response_classified_by_shape:
  assumes "decode input = Some bv" and "richiestaBonus bv = Resolved (Inr r)"
    and "\<not> (200 \<le> response_status r \<and> response_status r < 300
              \<and> isConfirmation (response_value r))"
  shows
    "(BonusVacanzaTransientError b (response_value r) \<longrightarrow>
        SendBonusActivationHandler b isConfirmation decode richiestaBonus input = Inl (TransientResponse r))
     \<and> (BonusVacanzaInvalidRequestError b (response_value r) \<longrightarrow>
        SendBonusActivationHandler b isConfirmation decode richiestaBonus input
          = Inr (SendFailureInvalidRequest (response_value r)))
     \<and> (\<not> BonusVacanzaTransientError b (response_value r)
          \<and> \<not> BonusVacanzaInvalidRequestError b (response_value r) \<longrightarrow>
        SendBonusActivationHandler b isConfirmation decode richiestaBonus input
          = Inr (SendFailureUnhandled (stringify (responseJson r))))
     \<and> (BonusVacanzaTransientError b v \<longleftrightarrow>
          b v \<and> (property ''errorCode'' v = Some (JString ''4000'')
                 \<or> property ''errorCode'' v = Some (JString ''3000'')))
     \<and> (BonusVacanzaInvalidRequestError b v \<longleftrightarrow>
          b v \<and> (property ''errorCode'' v = Some (JString ''1000'')
                 \<or> property ''errorCode'' v = Some (JString ''1005'')
                 \<or> property ''errorCode'' v = Some (JString ''900'')
                 \<or> property ''errorCode'' v = Some (JString ''907'')
                 \<or> property ''errorCode'' v = Some (JString ''908'')))
     \<and> \<not> (BonusVacanzaTransientError b v \<and> BonusVacanzaInvalidRequestError b v)"
proof (intro conjI impI)
  assume t: "BonusVacanzaTransientError b (response_value r)"
  then have "\<not> BonusVacanzaInvalidRequestError b (response_value r)"
    by (rule transient_not_invalid)
  with t assms show
    "SendBonusActivationHandler b isConfirmation decode richiestaBonus input = Inl (TransientResponse r)"
    by (simp add: SendBonusActivationHandler_def classifyResponse_def)
next
  assume "BonusVacanzaInvalidRequestError b (response_value r)"
  with assms show "SendBonusActivationHandler b isConfirmation decode richiestaBonus input
          = Inr (SendFailureInvalidRequest (response_value r))"
    by (simp add: SendBonusActivationHandler_def classifyResponse_def)
next
  assume "\<not> BonusVacanzaTransientError b (response_value r)
          \<and> \<not> BonusVacanzaInvalidRequestError b (response_value r)"
  with assms show "SendBonusActivationHandler b isConfirmation decode richiestaBonus input
          = Inr (SendFailureUnhandled (stringify (responseJson r)))"
    by (simp add: SendBonusActivationHandler_def classifyResponse_def)
next
  show "BonusVacanzaTransientError b v \<longleftrightarrow>
          b v \<and> (property ''errorCode'' v = Some (JString ''4000'')
                 \<or> property ''errorCode'' v = Some (JString ''3000''))"
    by (rule transient_iff)
next
  show "BonusVacanzaInvalidRequestError b v \<longleftrightarrow>
          b v \<and> (property ''errorCode'' v = Some (JString ''1000'')
                 \<or> property ''errorCode'' v = Some (JString ''1005'')
                 \<or> property ''errorCode'' v = Some (JString ''900'')
                 \<or> property ''errorCode'' v = Some (JString ''907'')
                 \<or> property ''errorCode'' v = Some (JString ''908''))"
    by (rule invalid_request_iff)
next
  show "\<not> (BonusVacanzaTransientError b v \<and> BonusVacanzaInvalidRequestError b v)"
    using transient_not_invalid by blast
qed

lemma stringify_unhandled_example:
  "stringify (responseJson (errorResponse 123 (JObject [(''foo'', JString ''bar'')])))
     = ''{'' @ quote ''headers'' @ '':{},'' @ quote ''status'' @ '':123,'' @ quote ''value''
         @ '':{'' @ quote ''foo'' @ '':'' @ quote ''bar'' @ ''}}''"
  by code_simp

theorem response_classified_by_shape_witness:
  "SendBonusActivationHandler isErrorObject (\<lambda>v. False) Some
       (\<lambda>bv. Resolved (Inr (errorResponse 500 (errorPayload ''4000'')))) aBonusVacanza
     = Inl (TransientResponse (errorResponse 500 (errorPayload ''4000'')))
   \<and> SendBonusActivationHandler isErrorObject (\<lambda>v. False) Some
       (\<lambda>bv. Resolved (Inr (errorResponse 400 (errorPayload ''1000'')))) aBonusVacanza
     = Inr (SendFailureInvalidRequest (errorPayload ''1000''))
   \<and> SendBonusActivationHandler isErrorObject (\<lambda>v. False) Some
       (\<lambda>bv. Resolved (Inr (errorResponse 123 (JObject [(''foo'', JString ''bar'')]))))
       aBonusVacanza
     = Inr (SendFailureUnhandled
         (stringify (responseJson (errorResponse 123 (JObject [(''foo'', JString ''bar'')])))))"
proof (intro conjI)
  have e: "isErrorObject (errorPayload c)" for c
    by (simp add: isErrorObject_def errorPayload_def)
  have p: "property ''errorCode'' (errorPayload c) = Some (JString c)" for c
    by (simp add: errorPayload_def)
  have t: "BonusVacanzaTransientError isErrorObject (errorPayload ''4000'')"
    by (simp add: transient_iff e p)
  have i: "BonusVacanzaInvalidRequestError isErrorObject (errorPayload ''1000'')"
    by (simp add: invalid_request_iff e p)
  have n: "\<not> isErrorObject (JObject [(''foo'', JString ''bar'')])"
    by (simp add: isErrorObject_def)
  have v: "response_value (errorResponse st x) = x" for st x
    by (simp add: errorResponse_def)
  show "SendBonusActivationHandler isErrorObject (\<lambda>v. False) Some
       (\<lambda>bv. Resolved (Inr (errorResponse 500 (errorPayload ''4000'')))) aBonusVacanza
     = Inl (TransientResponse (errorResponse 500 (errorPayload ''4000'')))"
    using response_classified_by_shape [where r = "errorResponse 500 (errorPayload ''4000'')"
        and isConfirmation = "\<lambda>v. False" and b = isErrorObject and decode = Some
        and input = aBonusVacanza and bv = aBonusVacanza
        and richiestaBonus = "\<lambda>bv. Resolved (Inr (errorResponse 500 (errorPayload ''4000'')))"] t
    by (simp add: v)
  show "SendBonusActivationHandler isErrorObject (\<lambda>v. False) Some
       (\<lambda>bv. Resolved (Inr (errorResponse 400 (errorPayload ''1000'')))) aBonusVacanza
     = Inr (SendFailureInvalidRequest (errorPayload ''1000''))"
    using response_classified_by_shape [where r = "errorResponse 400 (errorPayload ''1000'')"
        and isConfirmation = "\<lambda>v. False" and b = isErrorObject and decode = Some
        and input = aBonusVacanza and bv = aBonusVacanza
        and richiestaBonus = "\<lambda>bv. Resolved (Inr (errorResponse 400 (errorPayload ''1000'')))"] i
    by (simp add: v)
  show "SendBonusActivationHandler isErrorObject (\<lambda>v. False) Some
       (\<lambda>bv. Resolved (Inr (errorResponse 123 (JObject [(''foo'', JString ''bar'')]))))
       aBonusVacanza
     = Inr (SendFailureUnhandled
         (stringify (responseJson (errorResponse 123 (JObject [(''foo'', JString ''bar'')])))))"
    using response_classified_by_shape
        [where r = "errorResponse 123 (JObject [(''foo'', JString ''bar'')])"
        and isConfirmation = "\<lambda>v. False" and b = isErrorObject and decode = Some
        and input = aBonusVacanza and bv = aBonusVacanza
        and richiestaBonus = "\<lambda>bv. Resolved (Inr (errorResponse 123 (JObject [(''foo'', JString ''bar'')])))"] n
    by (simp add: v transient_iff invalid_request_iff)
qed

section \<open>Properties of the retry on an identifier collision\<close>














end
